theory Spec2Isabelle
  imports Main "HOL-Library.Word"
begin

section \<open>The Renesas Ethernet Switch para-virtualised backend (rswitch\_xenback.c)\<close>

text \<open>
  A shallow embedding of \<^verbatim>\<open>drivers/net/ethernet/renesas/rswitch_xenback.c\<close>.
  Every call into a collaborator that the file does not define (the xenbus client, the
  event-channel layer, the chain pool and the net-device registrar of rswitch.c) appends
  an \<open>event\<close> to a log, in program order; the values such a call returns are read
  from an environment record, so that every return value the C code tests is a branch of
  the model.
\<close>

subsection \<open>Data\<close>

text \<open>\<^verbatim>\<open>enum xenbus_state\<close> (xen/interface/io/xenbus.h), in the order of its values 0..8.\<close>

datatype xenbus_state =
    XenbusStateUnknown
  | XenbusStateInitialising
  | XenbusStateInitWait
  | XenbusStateInitialised
  | XenbusStateConnected
  | XenbusStateClosing
  | XenbusStateClosed
  | XenbusStateReconfiguring
  | XenbusStateReconfigured

type_synonym evtchn_port_t = "32 word"

text \<open>The errno values the file names.\<close>

definition EAGAIN :: int where "EAGAIN = 11"
definition ENOMEM :: int where "ENOMEM = 12"
definition ENODEV :: int where "ENODEV = 19"
definition EINVAL :: int where "EINVAL = 22"

definition RSWITCH_BACK_BASE_INDEX :: "32 word" where
  "RSWITCH_BACK_BASE_INDEX = 3"

text \<open>
  \<^verbatim>\<open>struct rswitch_gwca_chain\<close>, the fields this file touches. \<open>back_info\<close> is the
  address of the owning \<^verbatim>\<open>struct rswitch_vmq_back_info\<close> (\<open>None\<close> is NULL).
\<close>

record rswitch_gwca_chain =
  index :: int
  back_info :: "nat option"
  dir_tx :: bool
  chain_osid :: "32 word"

text \<open>
  \<^verbatim>\<open>struct rswitch_device\<close>, the fields this file touches: \<open>remote_chain\<close> and the
  index of the device's own receive chain (\<^verbatim>\<open>rdev->rx_chain->index\<close>).
\<close>

record rswitch_device =
  remote_chain :: int
  rdev_rx_chain_index :: int

text \<open>A \<^verbatim>\<open>struct rswitch_device *\<close>: NULL, an \<^verbatim>\<open>ERR_PTR(err)\<close>, or a device.\<close>

datatype rdev_ptr = RdevNull | RdevErr int | Rdev rswitch_device

text \<open>
  \<^verbatim>\<open>struct rswitch_vmq_back_info\<close>. A chain pointer is modelled by the chain it points
  to (\<open>None\<close> is NULL). The fields \<open>name\<close>, \<open>dev\<close>, \<open>state\<close> and
  \<open>rswitch_priv\<close> are left out: no branch of the file reads them.
\<close>

record rswitch_vmq_back_info =
  rdev :: rdev_ptr
  frontend_state :: xenbus_state
  tx_chain :: "rswitch_gwca_chain option"
  rx_chain :: "rswitch_gwca_chain option"
  tx_evtchn :: evtchn_port_t
  rx_evtchn :: evtchn_port_t
  tx_irq :: int
  rx_irq :: int
  osid :: "32 word"
  if_num :: "32 word"

text \<open>What the code asks of its collaborators, in the order it asks.\<close>

datatype event =
    SwitchState xenbus_state
  | DevFatal int
  | Warn
  | BindTx evtchn_port_t int
  | BindRx evtchn_port_t int
  | Unbind int
  | Notify evtchn_port_t
  | ChainRegister "rswitch_gwca_chain option" bool
  | DeviceUnregister
  | GwcaGet "int option"
  | GwcaPut int
  | AllocEtherdev bool
  | SetPrivRdev int
  | RegisterNetdev int
  | RxdmacInit int
  | TxdmacInit int
  | RxdmacFree
  | UnregisterNetdev
  | NapiDel
  | FreeNetdev
  | NdevUnregister "32 word"
  | TxnStart int
  | TxnWrite string int int
  | TxnEnd bool int
  | Kfree nat

text \<open>
  \<^verbatim>\<open>struct xenbus_device\<close>: \<open>state\<close> is \<^verbatim>\<open>dev->state\<close>, the published local
  state; \<open>log\<close> collects the events.
\<close>

record xenbus_device =
  state :: xenbus_state
  log :: "event list"

text \<open>
  A xenbus device as the callbacks see it once \<^verbatim>\<open>probe\<close> has succeeded:
  \<open>be\<close> is the structure \<^verbatim>\<open>dev_get_drvdata(&dev->dev)\<close> points to.
\<close>

record vmq_dev = xenbus_device +
  be :: rswitch_vmq_back_info

definition emit :: "event \<Rightarrow> 'a xenbus_device_scheme \<Rightarrow> 'a xenbus_device_scheme" where
  "emit e d = d\<lparr>log := log d @ [e]\<rparr>"

text \<open>
  Modelled from the spec: \<^verbatim>\<open>xenbus_switch_state\<close> (the xenbus client, not under
  src/) publishes the new state, which becomes \<^verbatim>\<open>dev->state\<close>.
\<close>

definition xenbus_switch_state ::
  "'a xenbus_device_scheme \<Rightarrow> xenbus_state \<Rightarrow> 'a xenbus_device_scheme" where
  "xenbus_switch_state d s = emit (SwitchState s) (d\<lparr>state := s\<rparr>)"

text \<open>
  Modelled from the spec: \<^verbatim>\<open>xenbus_dev_fatal\<close> (the xenbus client, not under src/)
  reports the error to the operator; the model records the report and nothing else.
\<close>

definition xenbus_dev_fatal :: "'a xenbus_device_scheme \<Rightarrow> int \<Rightarrow> 'a xenbus_device_scheme" where
  "xenbus_dev_fatal d err = emit (DevFatal err) d"

definition WARN_ON :: "vmq_dev \<Rightarrow> vmq_dev" where
  "WARN_ON d = emit Warn d"

subsection \<open>Disconnect\<close>

text \<open>
  \<^verbatim>\<open>rswitch_vmq_back_disconnect\<close>: a handler field is bound when it is non-zero
  (\<^verbatim>\<open>if (be->rx_irq)\<close>); 0 is the unbound sentinel.
\<close>

definition rswitch_vmq_back_disconnect :: "vmq_dev \<Rightarrow> vmq_dev" where
  "rswitch_vmq_back_disconnect d =
     (let d1 = (if rx_irq (be d) \<noteq> 0 then emit (Unbind (rx_irq (be d))) d else d);
          d2 = (if tx_irq (be d1) \<noteq> 0 then emit (Unbind (tx_irq (be d1))) d1 else d1);
          d3 = d2\<lparr>be := (be d2)\<lparr>tx_irq := 0\<rparr>\<rparr>
      in d3\<lparr>be := (be d3)\<lparr>rx_irq := 0\<rparr>\<rparr>)"

subsection \<open>The datapath interrupt bridge\<close>

text \<open>Following a pointer that is NULL, an \<^verbatim>\<open>ERR_PTR\<close> or freed.\<close>

datatype fault = BadPointer

text \<open>
  \<^verbatim>\<open>rswitch_vmq_back_data_irq\<close>: \<open>mem\<close> maps the address of an allocated
  \<^verbatim>\<open>struct rswitch_vmq_back_info\<close> to its contents. The result is the list of
  notifications sent, or the fault of following a pointer that leads nowhere.
\<close>

definition rswitch_vmq_back_data_irq ::
  "(nat \<rightharpoonup> rswitch_vmq_back_info) \<Rightarrow> rswitch_gwca_chain \<Rightarrow> fault + event list" where
  "rswitch_vmq_back_data_irq mem c =
     (case back_info c of
        None \<Rightarrow> Inl BadPointer
      | Some p \<Rightarrow>
          (case mem p of
             None \<Rightarrow> Inl BadPointer
           | Some b \<Rightarrow> Inr [Notify (rx_evtchn b), Notify (tx_evtchn b)]))"

subsection \<open>Connect\<close>

text \<open>
  What the xenbus client and the event-channel layer answer during one callback:
  the return value of \<^verbatim>\<open>xenbus_gather\<close> and the two channel numbers it read, the
  return values of the two \<^verbatim>\<open>bind_interdomain_evtchn_to_irqhandler_lateeoi\<close> calls
  (negative: an error; otherwise the irq), and \<^verbatim>\<open>xenbus_dev_is_online\<close>.
\<close>

record xen_env =
  gather_err :: int
  gather_tx_evt :: "32 word"
  gather_rx_evt :: "32 word"
  bind_tx_ret :: int
  bind_rx_ret :: int
  dev_is_online :: bool

text \<open>
  \<^verbatim>\<open>rswitch_vmq_back_connect\<close>. The result is \<open>Inr\<close> the returned int, or
  \<open>Inl\<close> a fault where the last assignment follows \<^verbatim>\<open>be->rdev\<close> or
  \<^verbatim>\<open>be->rx_chain\<close> and the pointer leads nowhere.
\<close>

definition rswitch_vmq_back_connect :: "xen_env \<Rightarrow> vmq_dev \<Rightarrow> (fault + int) \<times> vmq_dev" where
  "rswitch_vmq_back_connect env d =
     (if gather_err env \<noteq> 0
      then (Inr (gather_err env), xenbus_dev_fatal d (gather_err env))
      else
        let tx_evt = gather_tx_evt env;
            rx_evt = gather_rx_evt env;
            d1 = d\<lparr>be := (be d)\<lparr>tx_evtchn := tx_evt\<rparr>\<rparr>;
            d2 = d1\<lparr>be := (be d1)\<lparr>rx_evtchn := rx_evt\<rparr>\<rparr>;
            d3 = emit (BindTx tx_evt (bind_tx_ret env)) d2
        in if bind_tx_ret env < 0
           then (Inr (bind_tx_ret env), xenbus_dev_fatal d3 (bind_tx_ret env))
           else
             let d4 = d3\<lparr>be := (be d3)\<lparr>tx_irq := bind_tx_ret env\<rparr>\<rparr>;
                 d5 = emit (BindRx rx_evt (bind_rx_ret env)) d4
             in if bind_rx_ret env < 0
                then (Inr (bind_rx_ret env), xenbus_dev_fatal d5 (bind_rx_ret env))
                else
                  let d6 = d5\<lparr>be := (be d5)\<lparr>rx_irq := bind_rx_ret env\<rparr>\<rparr>;
                      d7 = emit (ChainRegister (tx_chain (be d6)) False) d6;
                      d8 = emit (ChainRegister (rx_chain (be d7)) True) d7;
                      d9 = emit (Notify tx_evt) d8;
                      d10 = emit (Notify rx_evt) d9
                  in (case rdev (be d10) of
                        Rdev r \<Rightarrow>
                          (case rx_chain (be d10) of
                             Some c \<Rightarrow>
                               (Inr 0,
                                d10\<lparr>be := (be d10)\<lparr>rdev := Rdev (r\<lparr>remote_chain := index c\<rparr>)\<rparr>\<rparr>)
                           | None \<Rightarrow> (Inl BadPointer, d10))
                      | RdevNull \<Rightarrow> (Inl BadPointer, d10)
                      | RdevErr e \<Rightarrow> (Inl BadPointer, d10)))"

subsection \<open>The state machine\<close>

text \<open>
  How a call ends: it returns, it faults, or it is still inside the
  \<^verbatim>\<open>while\<close> loop when the iteration budget of the model is used up.
\<close>

datatype outcome = Returned | Crashed | Spinning

text \<open>
  One iteration of the \<^verbatim>\<open>while\<close> loop of \<^verbatim>\<open>set_backend_state\<close>, entered
  with \<^verbatim>\<open>dev->state != state\<close>: the two nested \<^verbatim>\<open>switch\<close> statements.
  \<open>None\<close> goes back to the loop test (every \<^verbatim>\<open>break\<close> does, also the one after
  \<^verbatim>\<open>WARN_ON(1)\<close>); \<open>Some\<close> leaves the function (the \<^verbatim>\<open>return\<close> after a
  failed connect, or a fault).
\<close>

definition set_backend_state_body ::
  "xen_env \<Rightarrow> vmq_dev \<Rightarrow> xenbus_state \<Rightarrow> outcome option \<times> vmq_dev" where
  "set_backend_state_body env d st =
     (if state d = XenbusStateClosed then
        (if st = XenbusStateInitWait \<or> st = XenbusStateConnected
         then (None, xenbus_switch_state d XenbusStateInitWait)
         else if st = XenbusStateClosing
         then (None, xenbus_switch_state d XenbusStateClosing)
         else (None, WARN_ON d))
      else if state d = XenbusStateInitWait \<or> state d = XenbusStateInitialised then
        (if st = XenbusStateConnected
         then (case rswitch_vmq_back_connect env d of
                 (Inr r, d') \<Rightarrow>
                   if r \<noteq> 0 then (Some Returned, d')
                   else (None, xenbus_switch_state d' XenbusStateConnected)
               | (Inl f, d') \<Rightarrow> (Some Crashed, d'))
         else if st = XenbusStateClosing \<or> st = XenbusStateClosed
         then (None, xenbus_switch_state d XenbusStateClosing)
         else (None, WARN_ON d))
      else if state d = XenbusStateConnected then
        (if st = XenbusStateInitWait \<or> st = XenbusStateClosing \<or> st = XenbusStateClosed
         then (None, xenbus_switch_state (rswitch_vmq_back_disconnect d) XenbusStateClosing)
         else (None, WARN_ON d))
      else if state d = XenbusStateClosing then
        (if st = XenbusStateInitWait \<or> st = XenbusStateConnected \<or> st = XenbusStateClosed
         then (None, xenbus_switch_state d XenbusStateClosed)
         else (None, WARN_ON d))
      else (None, WARN_ON d))"

text \<open>
  \<^verbatim>\<open>set_backend_state\<close>: the loop, with a budget of iterations. The budget only
  bounds the model: a result \<open>Spinning\<close> says that after that many iterations the loop
  test still holds.
\<close>

fun set_backend_state :: "nat \<Rightarrow> xen_env \<Rightarrow> vmq_dev \<Rightarrow> xenbus_state \<Rightarrow> outcome \<times> vmq_dev" where
  "set_backend_state 0 env d st =
     (if state d \<noteq> st then (Spinning, d) else (Returned, d))"
| "set_backend_state (Suc n) env d st =
     (if state d \<noteq> st
      then (case set_backend_state_body env d st of
              (None, d') \<Rightarrow> set_backend_state n env d' st
            | (Some e, d') \<Rightarrow> (e, d'))
      else (Returned, d))"

text \<open>Modelled from the spec: \<^verbatim>\<open>device_unregister\<close> (the driver core) unregisters the device.\<close>

definition device_unregister :: "vmq_dev \<Rightarrow> vmq_dev" where
  "device_unregister d = emit DeviceUnregister d"

text \<open>
  \<^verbatim>\<open>rswitch_vmq_frontend_changed\<close>. A call of \<open>set_backend_state\<close> that does not
  return ends the callback there. The \<^verbatim>\<open>default\<close> branch takes the two values of the
  enum no \<^verbatim>\<open>case\<close> names.
\<close>

definition rswitch_vmq_frontend_changed ::
  "nat \<Rightarrow> xen_env \<Rightarrow> vmq_dev \<Rightarrow> xenbus_state \<Rightarrow> outcome \<times> vmq_dev" where
  "rswitch_vmq_frontend_changed n env d0 fs =
     (let d = d0\<lparr>be := (be d0)\<lparr>frontend_state := fs\<rparr>\<rparr> in
      case fs of
        XenbusStateInitialising \<Rightarrow> set_backend_state n env d XenbusStateInitWait
      | XenbusStateInitialised \<Rightarrow> set_backend_state n env d XenbusStateConnected
      | XenbusStateConnected \<Rightarrow> set_backend_state n env d XenbusStateConnected
      | XenbusStateReconfiguring \<Rightarrow> (Returned, xenbus_switch_state d XenbusStateReconfigured)
      | XenbusStateClosing \<Rightarrow> set_backend_state n env d XenbusStateClosing
      | XenbusStateClosed \<Rightarrow>
          (case set_backend_state n env d XenbusStateClosed of
             (Returned, d1) \<Rightarrow>
               if dev_is_online env then (Returned, d1)
               else (case set_backend_state n env d1 XenbusStateClosed of
                       (Returned, d2) \<Rightarrow> (Returned, device_unregister d2)
                     | (Crashed, d2) \<Rightarrow> (Crashed, d2)
                     | (Spinning, d2) \<Rightarrow> (Spinning, d2))
           | (Crashed, d1) \<Rightarrow> (Crashed, d1)
           | (Spinning, d1) \<Rightarrow> (Spinning, d1))
      | XenbusStateUnknown \<Rightarrow>
          (case set_backend_state n env d XenbusStateClosed of
             (Returned, d1) \<Rightarrow> (Returned, device_unregister d1)
           | (Crashed, d1) \<Rightarrow> (Crashed, d1)
           | (Spinning, d1) \<Rightarrow> (Spinning, d1))
      | XenbusStateInitWait \<Rightarrow> (Returned, xenbus_dev_fatal d (- EINVAL))
      | XenbusStateReconfigured \<Rightarrow> (Returned, xenbus_dev_fatal d (- EINVAL)))"

subsection \<open>The chain pool and the control store\<close>

text \<open>
  Modelled from the spec: the chain pool of rswitch.c (\<^verbatim>\<open>rswitch_gwca_get\<close>,
  \<^verbatim>\<open>rswitch_gwca_put\<close>; not under src/) manages a fixed set of chains; acquire
  hands out a chain that is not in use or nothing, release gives a chain back and is
  idempotent. \<open>used ! i\<close> says that chain \<open>i\<close> is handed out.
\<close>

record rswitch_gwca =
  used :: "bool list"

fun find_first_zero_bit :: "bool list \<Rightarrow> nat \<Rightarrow> nat option" where
  "find_first_zero_bit [] i = None"
| "find_first_zero_bit (b # bs) i = (if b then find_first_zero_bit bs (Suc i) else Some i)"

definition rswitch_gwca_get :: "rswitch_gwca \<Rightarrow> rswitch_gwca_chain option \<times> rswitch_gwca" where
  "rswitch_gwca_get g =
     (case find_first_zero_bit (used g) 0 of
        None \<Rightarrow> (None, g)
      | Some i \<Rightarrow>
          (Some \<lparr>index = int i, back_info = None, dir_tx = False, chain_osid = 0\<rparr>,
           g\<lparr>used := (used g)[i := True]\<rparr>))"

definition rswitch_gwca_put :: "rswitch_gwca \<Rightarrow> rswitch_gwca_chain \<Rightarrow> rswitch_gwca" where
  "rswitch_gwca_put g c =
     (if 0 \<le> index c \<and> nat (index c) < length (used g)
      then g\<lparr>used := (used g)[nat (index c) := False]\<rparr>
      else g)"

text \<open>
  The machine around one xenbus device: the driver-data pointer of the device (the
  address of a \<^verbatim>\<open>struct rswitch_vmq_back_info\<close>, \<open>None\<close> is NULL), the allocated
  structures by address, the chain pool, the keys of the device's own control-store
  directory that every reader sees (\<open>xstore\<close>), the writes of the open transaction, which
  no reader sees (\<open>txn\<close>), and what a reader could see after each operation on the
  store so far (\<open>seen\<close>). Values are kept as the integers that the decimal strings of
  the store denote.
\<close>

record host = xenbus_device +
  drvdata :: "nat option"
  heap :: "nat \<rightharpoonup> rswitch_vmq_back_info"
  gwca :: rswitch_gwca
  xstore :: "string \<rightharpoonup> int"
  txn :: "(string \<times> int) list"
  seen :: "(string \<rightharpoonup> int) list"

definition observe :: "host \<Rightarrow> host" where
  "observe h = h\<lparr>seen := seen h @ [xstore h]\<rparr>"

text \<open>
  Modelled from the spec: the transactions of the control-store client
  (\<^verbatim>\<open>xenbus_transaction_start\<close>, \<^verbatim>\<open>xenbus_printf\<close>,
  \<^verbatim>\<open>xenbus_transaction_end\<close>; not under src/) are atomic, all-or-nothing: a write
  inside a transaction is held back, and the end of the transaction makes every write of
  it visible at once when it is not an abort and reports no error, and none of them
  otherwise. The second argument is the value the call returns.
\<close>

definition xenbus_transaction_start :: "host \<Rightarrow> int \<Rightarrow> host" where
  "xenbus_transaction_start h err = observe (emit (TxnStart err) (h\<lparr>txn := []\<rparr>))"

definition xenbus_printf :: "host \<Rightarrow> int \<Rightarrow> string \<Rightarrow> int \<Rightarrow> host" where
  "xenbus_printf h err k v =
     observe (emit (TxnWrite k v err) (if err = 0 then h\<lparr>txn := txn h @ [(k, v)]\<rparr> else h))"

fun apply_writes :: "(string \<times> int) list \<Rightarrow> (string \<rightharpoonup> int) \<Rightarrow> (string \<rightharpoonup> int)" where
  "apply_writes [] m = m"
| "apply_writes ((k, v) # ws) m = apply_writes ws (m(k \<mapsto> v))"

definition xenbus_transaction_end :: "host \<Rightarrow> int \<Rightarrow> bool \<Rightarrow> host" where
  "xenbus_transaction_end h err abort =
     observe (emit (TxnEnd abort err)
       (if \<not> abort \<and> err = 0 then h\<lparr>xstore := apply_writes (txn h) (xstore h), txn := []\<rparr>
        else h\<lparr>txn := []\<rparr>))"

subsection \<open>Registering the local net device\<close>

text \<open>
  What the network stack and the DMA setup of rswitch.c answer: whether
  \<^verbatim>\<open>alloc_etherdev_mqs\<close> gave a device, the return values of
  \<^verbatim>\<open>register_netdev\<close>, \<^verbatim>\<open>rswitch_rxdmac_init\<close> and
  \<^verbatim>\<open>rswitch_txdmac_init\<close>, and the index of the receive chain that
  \<^verbatim>\<open>rswitch_rxdmac_init\<close> gave the device.
\<close>

record ndev_env =
  alloc_etherdev_ok :: bool
  register_netdev_err :: int
  rxdmac_init_err :: int
  txdmac_init_err :: int
  rxdmac_chain_index :: int

text \<open>
  \<^verbatim>\<open>rswitch_vmq_back_ndev_register\<close>. The parameter \<^verbatim>\<open>int index\<close> is kept as its
  32 bits; the slot \<^verbatim>\<open>RSWITCH_BACK_BASE_INDEX + index\<close> of \<^verbatim>\<open>priv->rdev\<close> is
  computed in 32 bits, where it wraps, and read as a signed int.
\<close>

definition rswitch_vmq_back_ndev_register ::
  "ndev_env \<Rightarrow> 32 word \<Rightarrow> host \<Rightarrow> rdev_ptr \<times> host" where
  "rswitch_vmq_back_ndev_register env idx h =
     (if \<not> alloc_etherdev_ok env then (RdevErr (- ENOMEM), emit (AllocEtherdev False) h)
      else
        let h1 = emit (AllocEtherdev True) h;
            h2 = emit (SetPrivRdev (sint (RSWITCH_BACK_BASE_INDEX + idx))) h1;
            h3 = emit (RegisterNetdev (register_netdev_err env)) h2
        in if register_netdev_err env \<noteq> 0
           then (RdevErr (register_netdev_err env), emit FreeNetdev (emit NapiDel h3))
           else
             let h4 = emit (RxdmacInit (rxdmac_init_err env)) h3
             in if rxdmac_init_err env < 0
                then (RdevErr (rxdmac_init_err env),
                      emit FreeNetdev (emit NapiDel (emit UnregisterNetdev h4)))
                else
                  let h5 = emit (TxdmacInit (txdmac_init_err env)) h4
                  in if txdmac_init_err env < 0
                     then (RdevErr (txdmac_init_err env),
                           emit FreeNetdev (emit NapiDel (emit UnregisterNetdev (emit RxdmacFree h5))))
                     else (Rdev \<lparr>remote_chain = - 1,
                                 rdev_rx_chain_index = rxdmac_chain_index env\<rparr>, h5))"

text \<open>\<^verbatim>\<open>IS_ERR\<close>: the pointer is one of the top 4095 addresses, an \<^verbatim>\<open>ERR_PTR\<close> of an errno.\<close>

definition IS_ERR :: "rdev_ptr \<Rightarrow> bool" where
  "IS_ERR p = (case p of RdevErr e \<Rightarrow> - 4095 \<le> e \<and> e < 0 | RdevNull \<Rightarrow> False | Rdev r \<Rightarrow> False)"

definition PTR_ERR :: "rdev_ptr \<Rightarrow> int" where
  "PTR_ERR p = (case p of RdevErr e \<Rightarrow> e | RdevNull \<Rightarrow> 0 | Rdev r \<Rightarrow> 0)"

subsection \<open>Attach and Remove\<close>

text \<open>
  What one transaction attempt is answered: the return values of
  \<^verbatim>\<open>xenbus_transaction_start\<close>, of the three \<^verbatim>\<open>xenbus_printf\<close> calls and of
  \<^verbatim>\<open>xenbus_transaction_end(xbt, 0)\<close>.
\<close>

record txn_env =
  start_err :: int
  printf_tx_err :: int
  printf_rx_err :: int
  printf_remote_err :: int
  end_err :: int

text \<open>
  What \<^verbatim>\<open>probe\<close> is answered: the address \<^verbatim>\<open>kzalloc\<close> returns (\<open>None\<close> is
  NULL), whether \<^verbatim>\<open>rswitch_find_priv\<close> finds the switch, what scanning the peer's
  \<^verbatim>\<open>osid\<close> and \<^verbatim>\<open>if-num\<close> keys as an unsigned number gives (\<open>None\<close> when the key
  is missing or malformed), the answers to the net-device registration, and the answers
  to the transaction attempts, one per attempt.
\<close>

record probe_env =
  kzalloc_ret :: "nat option"
  find_priv_ok :: bool
  scan_osid :: "32 word option"
  scan_if_num :: "32 word option"
  ndev_answers :: ndev_env
  txn_answers :: "txn_env list"

text \<open>
  Modelled from the spec: \<^verbatim>\<open>xenbus_read_unsigned(dir, node, default_val)\<close> (the
  xenbus client, not under src/) gives the number the key holds, and the default the
  caller passes when the key is missing or malformed.
\<close>

definition xenbus_read_unsigned :: "32 word option \<Rightarrow> 32 word \<Rightarrow> 32 word" where
  "xenbus_read_unsigned scanned default_val =
     (case scanned of None \<Rightarrow> default_val | Some v \<Rightarrow> v)"

text \<open>What \<^verbatim>\<open>kzalloc\<close> returns: every field zero.\<close>

definition kzalloc_back_info :: rswitch_vmq_back_info where
  "kzalloc_back_info =
     \<lparr>rdev = RdevNull, frontend_state = XenbusStateUnknown, tx_chain = None, rx_chain = None,
      tx_evtchn = 0, rx_evtchn = 0, tx_irq = 0, rx_irq = 0, osid = 0, if_num = 0\<rparr>"

definition gwca_get :: "host \<Rightarrow> rswitch_gwca_chain option \<times> host" where
  "gwca_get h =
     (case rswitch_gwca_get (gwca h) of
        (c, g) \<Rightarrow> (c, emit (GwcaGet (map_option index c)) (h\<lparr>gwca := g\<rparr>)))"

definition gwca_put :: "rswitch_gwca_chain \<Rightarrow> host \<Rightarrow> host" where
  "gwca_put c h = emit (GwcaPut (index c)) (h\<lparr>gwca := rswitch_gwca_put (gwca h) c\<rparr>)"

text \<open>How the \<^verbatim>\<open>do ... while (err == -EAGAIN)\<close> loop of \<^verbatim>\<open>probe\<close> is left.\<close>

datatype txn_exit = LoopDone int | GotoFail int | GotoAbort int | LoopFault | LoopRetrying

text \<open>
  The \<^verbatim>\<open>do ... while\<close> loop: one list element answers one attempt. The loop has no
  bound of its own; \<open>LoopRetrying\<close> says that every answer given was a conflict.
\<close>

fun publish_chain_ids :: "txn_env list \<Rightarrow> rswitch_vmq_back_info \<Rightarrow> host \<Rightarrow> txn_exit \<times> host" where
  "publish_chain_ids [] b h = (LoopRetrying, h)"
| "publish_chain_ids (t # ts) b h =
     (let h1 = xenbus_transaction_start h (start_err t) in
      if start_err t \<noteq> 0 then (GotoFail (start_err t), h1)
      else
        (case tx_chain b of
           None \<Rightarrow> (LoopFault, h1)
         | Some tc \<Rightarrow>
             let h2 = xenbus_printf h1 (printf_tx_err t) ''tx-chain-id'' (index tc) in
             if printf_tx_err t \<noteq> 0 then (GotoAbort (printf_tx_err t), h2)
             else
               (case rx_chain b of
                  None \<Rightarrow> (LoopFault, h2)
                | Some rc \<Rightarrow>
                    let h3 = xenbus_printf h2 (printf_rx_err t) ''rx-chain-id'' (index rc) in
                    if printf_rx_err t \<noteq> 0 then (GotoAbort (printf_rx_err t), h3)
                    else
                      (case rdev b of
                         Rdev r \<Rightarrow>
                           let h4 = xenbus_printf h3 (printf_remote_err t) ''remote-chain-id''
                                      (rdev_rx_chain_index r) in
                           if printf_remote_err t \<noteq> 0 then (GotoAbort (printf_remote_err t), h4)
                           else
                             let h5 = xenbus_transaction_end h4 (end_err t) False in
                             if end_err t = - EAGAIN then publish_chain_ids ts b h5
                             else (LoopDone (end_err t), h5)
                       | RdevNull \<Rightarrow> (LoopFault, h3)
                       | RdevErr e \<Rightarrow> (LoopFault, h3)))))"

text \<open>How \<^verbatim>\<open>probe\<close> ends: it returns an int, it faults, or it is still retrying.\<close>

datatype probe_ret = ProbeRet int | ProbeFault | ProbeRetrying

text \<open>
  The writes through the local pointer \<^verbatim>\<open>be\<close> are collected in a local copy and
  stored at the address of the structure when \<^verbatim>\<open>probe\<close> ends.
\<close>

definition write_be :: "nat \<Rightarrow> rswitch_vmq_back_info \<Rightarrow> host \<Rightarrow> host" where
  "write_be p b h = h\<lparr>heap := (heap h)(p \<mapsto> b)\<rparr>"

text \<open>The label \<^verbatim>\<open>fail:\<close> of \<^verbatim>\<open>probe\<close>.\<close>

definition probe_fail :: "int \<Rightarrow> nat \<Rightarrow> rswitch_vmq_back_info \<Rightarrow> host \<Rightarrow> probe_ret \<times> host" where
  "probe_fail err p b h =
     (let h1 = (case rx_chain b of Some c \<Rightarrow> gwca_put c h | None \<Rightarrow> h);
          h2 = (case tx_chain b of Some c \<Rightarrow> gwca_put c h1 | None \<Rightarrow> h1)
      in (ProbeRet err, write_be p b h2))"

text \<open>\<^verbatim>\<open>rswitch_vmq_back_probe\<close>.\<close>

definition rswitch_vmq_back_probe :: "probe_env \<Rightarrow> host \<Rightarrow> probe_ret \<times> host" where
  "rswitch_vmq_back_probe env h =
     (case kzalloc_ret env of
        None \<Rightarrow> (ProbeRet (- ENOMEM), xenbus_dev_fatal h (- ENOMEM))
      | Some p \<Rightarrow>
          if \<not> find_priv_ok env
          then (ProbeRet (- ENODEV), write_be p kzalloc_back_info (xenbus_dev_fatal h (- ENODEV)))
          else
            (case gwca_get h of (tc, h1) \<Rightarrow>
             case gwca_get h1 of (rc, h2) \<Rightarrow>
               let b1 = kzalloc_back_info\<lparr>tx_chain := tc, rx_chain := rc\<rparr> in
               (case rc of
                  None \<Rightarrow> probe_fail (- ENODEV) p b1 h2
                | Some r \<Rightarrow>
                    (case tc of
                       None \<Rightarrow> probe_fail (- ENODEV) p b1 h2
                     | Some t \<Rightarrow>
                         let t1 = t\<lparr>back_info := Some p, dir_tx := True\<rparr>;
                             r1 = r\<lparr>back_info := Some p, dir_tx := False\<rparr>;
                             h3 = h2\<lparr>drvdata := Some p\<rparr>;
                             b2 = b1\<lparr>osid := xenbus_read_unsigned (scan_osid env) 255\<rparr>;
                             t2 = t1\<lparr>chain_osid := osid b2\<rparr>;
                             r2 = r1\<lparr>chain_osid := osid b2\<rparr>;
                             b3 = b2\<lparr>tx_chain := Some t2, rx_chain := Some r2,
                                     if_num := xenbus_read_unsigned (scan_if_num env) 255\<rparr>
                         in (case rswitch_vmq_back_ndev_register (ndev_answers env)
                                    (if_num b3) h3 of
                               (rp, h4) \<Rightarrow>
                                 let b4 = b3\<lparr>rdev := rp\<rparr> in
                                 if IS_ERR rp
                                 then (ProbeRet (PTR_ERR rp),
                                       write_be p b4 (xenbus_dev_fatal h4 (PTR_ERR rp)))
                                 else
                                   (case publish_chain_ids (txn_answers env) b4 h4 of
                                      (LoopDone err, h5) \<Rightarrow>
                                        if err \<noteq> 0
                                        then probe_fail err p b4 (xenbus_dev_fatal h5 err)
                                        else (ProbeRet 0,
                                              write_be p b4
                                                (xenbus_switch_state h5 XenbusStateInitWait))
                                    | (GotoFail err, h5) \<Rightarrow> probe_fail err p b4 h5
                                    | (GotoAbort err, h5) \<Rightarrow>
                                        probe_fail err p b4
                                          (xenbus_dev_fatal (xenbus_transaction_end h5 0 True) err)
                                    | (LoopFault, h5) \<Rightarrow> (ProbeFault, write_be p b4 h5)
                                    | (LoopRetrying, h5) \<Rightarrow>
                                        (ProbeRetrying, write_be p b4 h5)))))))"

text \<open>
  \<^verbatim>\<open>rswitch_vmq_back_remove\<close>. The disconnect runs on the structure the driver data
  points to; the structure is freed before the pointer is cleared.
\<close>

definition rswitch_vmq_back_remove :: "host \<Rightarrow> (fault + int) \<times> host" where
  "rswitch_vmq_back_remove h =
     (case drvdata h of
        None \<Rightarrow> (Inl BadPointer, h)
      | Some p \<Rightarrow>
          (case heap h p of
             None \<Rightarrow> (Inl BadPointer, h)
           | Some b \<Rightarrow>
               (case (if rdev b \<noteq> RdevNull
                      then
                        let d = rswitch_vmq_back_disconnect \<lparr>state = state h, log = log h, be = b\<rparr>;
                            h' = emit (NdevUnregister (RSWITCH_BACK_BASE_INDEX + if_num (be d)))
                                   (h\<lparr>log := log d\<rparr>)
                        in ((be d)\<lparr>rdev := RdevNull\<rparr>, h')
                      else (b, h)) of
                  (b1, h1) \<Rightarrow>
                    let h2 = (case rx_chain b1 of Some c \<Rightarrow> gwca_put c h1 | None \<Rightarrow> h1);
                        h3 = (case tx_chain b1 of Some c \<Rightarrow> gwca_put c h2 | None \<Rightarrow> h2);
                        h4 = emit (Kfree p) (h3\<lparr>heap := (heap h3)(p := None)\<rparr>)
                    in (Inr 0, h4\<lparr>drvdata := None\<rparr>))))"

subsection \<open>The transition table of the specification, and sample inputs\<close>

text \<open>
  The edges of the state table as the specification lists them: Closed to InitWait,
  Closed to Closing, InitWait or Initialised to Connected, InitWait or Initialised to
  Closing, Connected to Closing, Closing to Closed.
\<close>

fun table_edge :: "xenbus_state \<Rightarrow> xenbus_state \<Rightarrow> bool" where
  "table_edge XenbusStateClosed XenbusStateInitWait = True"
| "table_edge XenbusStateClosed XenbusStateClosing = True"
| "table_edge XenbusStateInitWait XenbusStateConnected = True"
| "table_edge XenbusStateInitialised XenbusStateConnected = True"
| "table_edge XenbusStateInitWait XenbusStateClosing = True"
| "table_edge XenbusStateInitialised XenbusStateClosing = True"
| "table_edge XenbusStateConnected XenbusStateClosing = True"
| "table_edge XenbusStateClosing XenbusStateClosed = True"
| "table_edge _ _ = False"

text \<open>The states a log publishes, in order.\<close>

fun published :: "event list \<Rightarrow> xenbus_state list" where
  "published [] = []"
| "published (SwitchState s # es) = s # published es"
| "published (e # es) = published es"

text \<open>Every step of a run of published states, started in \<open>s\<close>, is an edge of the table.\<close>

fun edges_ok :: "xenbus_state \<Rightarrow> xenbus_state list \<Rightarrow> bool" where
  "edges_ok s [] = True"
| "edges_ok s (t # ts) = (table_edge s t \<and> edges_ok t ts)"

text \<open>The events a call added to the log of \<open>d\<close>, given the device \<open>d'\<close> it left.\<close>

definition events_since :: "'a xenbus_device_scheme \<Rightarrow> 'b xenbus_device_scheme \<Rightarrow> event list" where
  "events_since d d' = drop (length (log d)) (log d')"

text \<open>
  A sequence of desired states, each with the answers of the environment while it is
  processed, handed to \<open>set_backend_state\<close> one after the other; a call that does not
  return ends the run.
\<close>

fun set_backend_state_seq ::
  "nat \<Rightarrow> (xen_env \<times> xenbus_state) list \<Rightarrow> vmq_dev \<Rightarrow> outcome \<times> vmq_dev" where
  "set_backend_state_seq n [] d = (Returned, d)"
| "set_backend_state_seq n ((env, st) # reqs) d =
     (case set_backend_state n env d st of
        (Returned, d') \<Rightarrow> set_backend_state_seq n reqs d'
      | (Crashed, d') \<Rightarrow> (Crashed, d')
      | (Spinning, d') \<Rightarrow> (Spinning, d'))"

text \<open>
  The (current, desired) pairs for which the nested \<^verbatim>\<open>switch\<close> of
  \<^verbatim>\<open>set_backend_state\<close> has a \<^verbatim>\<open>case\<close> other than \<^verbatim>\<open>default\<close>.
\<close>

definition edge_applies :: "xenbus_state \<Rightarrow> xenbus_state \<Rightarrow> bool" where
  "edge_applies cur st =
     (cur = XenbusStateClosed
        \<and> (st = XenbusStateInitWait \<or> st = XenbusStateConnected \<or> st = XenbusStateClosing)
      \<or> (cur = XenbusStateInitWait \<or> cur = XenbusStateInitialised)
        \<and> (st = XenbusStateConnected \<or> st = XenbusStateClosing \<or> st = XenbusStateClosed)
      \<or> cur = XenbusStateConnected
        \<and> (st = XenbusStateInitWait \<or> st = XenbusStateClosing \<or> st = XenbusStateClosed)
      \<or> cur = XenbusStateClosing
        \<and> (st = XenbusStateInitWait \<or> st = XenbusStateConnected \<or> st = XenbusStateClosed))"

text \<open>
  The invariant of a run from \<open>d\<close> to \<open>d'\<close>: the log only grew, every state published
  on the way was reached along an edge of the table, and \<^verbatim>\<open>dev->state\<close> is the last
  state published.
\<close>

definition run_ok :: "vmq_dev \<Rightarrow> vmq_dev \<Rightarrow> bool" where
  "run_ok d d' =
     (take (length (log d)) (log d') = log d
      \<and> edges_ok (state d) (published (events_since d d'))
      \<and> state d' = last (state d # published (events_since d d')))"

text \<open>
  The events of one transaction attempt that writes the three identifiers and whose end
  returns \<open>e\<close>.
\<close>

definition attempt_events :: "int \<Rightarrow> int \<Rightarrow> int \<Rightarrow> int \<Rightarrow> event list" where
  "attempt_events txi rxi rmi e =
     [TxnStart 0, TxnWrite ''tx-chain-id'' txi 0, TxnWrite ''rx-chain-id'' rxi 0,
      TxnWrite ''remote-chain-id'' rmi 0, TxnEnd False e]"

text \<open>The events that are operations on the control store.\<close>

fun is_store_event :: "event \<Rightarrow> bool" where
  "is_store_event (TxnStart e) = True"
| "is_store_event (TxnWrite k v e) = True"
| "is_store_event (TxnEnd a e) = True"
| "is_store_event _ = False"

text \<open>How many of the three identifier keys a reader of the store \<open>m\<close> sees.\<close>

definition ids_visible :: "(string \<rightharpoonup> int) \<Rightarrow> nat" where
  "ids_visible m =
     length (filter (\<lambda>k. m k \<noteq> None) [''tx-chain-id'', ''rx-chain-id'', ''remote-chain-id''])"

text \<open>
  The answers to one transaction attempt in which every call succeeds but the end, which
  reports a conflict (\<^verbatim>\<open>-EAGAIN\<close>); and those of an attempt that is accepted.
\<close>

definition conflict_attempt :: "txn_env \<Rightarrow> bool" where
  "conflict_attempt t =
     (start_err t = 0 \<and> printf_tx_err t = 0 \<and> printf_rx_err t = 0 \<and> printf_remote_err t = 0
      \<and> end_err t = - EAGAIN)"

definition accepted_attempt :: "txn_env \<Rightarrow> bool" where
  "accepted_attempt t =
     (start_err t = 0 \<and> printf_tx_err t = 0 \<and> printf_rx_err t = 0 \<and> printf_remote_err t = 0
      \<and> end_err t = 0)"

text \<open>An attachment as a successful \<^verbatim>\<open>probe\<close> leaves it, and answers of the environment.\<close>

definition sample_be :: rswitch_vmq_back_info where
  "sample_be =
     \<lparr>rdev = Rdev \<lparr>remote_chain = - 1, rdev_rx_chain_index = 7\<rparr>,
      frontend_state = XenbusStateUnknown,
      tx_chain = Some \<lparr>index = 0, back_info = Some 1, dir_tx = True, chain_osid = 5\<rparr>,
      rx_chain = Some \<lparr>index = 1, back_info = Some 1, dir_tx = False, chain_osid = 5\<rparr>,
      tx_evtchn = 0, rx_evtchn = 0, tx_irq = 0, rx_irq = 0, osid = 5, if_num = 2\<rparr>"

definition sample_dev :: vmq_dev where
  "sample_dev = \<lparr>state = XenbusStateInitWait, log = [], be = sample_be\<rparr>"

definition sample_env :: xen_env where
  "sample_env =
     \<lparr>gather_err = 0, gather_tx_evt = 10, gather_rx_evt = 11,
      bind_tx_ret = 40, bind_rx_ret = 41, dev_is_online = False\<rparr>"

definition sample_host :: host where
  "sample_host =
     \<lparr>state = XenbusStateInitialising, log = [], drvdata = None, heap = Map.empty,
      gwca = \<lparr>used = [True, False, False, False]\<rparr>, xstore = Map.empty, txn = [], seen = []\<rparr>"

definition sample_txn :: txn_env where
  "sample_txn =
     \<lparr>start_err = 0, printf_tx_err = 0, printf_rx_err = 0, printf_remote_err = 0, end_err = 0\<rparr>"

definition sample_probe_env :: probe_env where
  "sample_probe_env =
     \<lparr>kzalloc_ret = Some 1, find_priv_ok = True, scan_osid = Some 5, scan_if_num = Some 2,
      ndev_answers = \<lparr>alloc_etherdev_ok = True, register_netdev_err = 0, rxdmac_init_err = 0,
                       txdmac_init_err = 0, rxdmac_chain_index = 9\<rparr>,
      txn_answers = [sample_txn\<lparr>end_err := - 11\<rparr>, sample_txn]\<rparr>"

text \<open>The sample answers with two conflicts before the accepted attempt.\<close>

definition two_conflicts_env :: probe_env where
  "two_conflicts_env =
     sample_probe_env\<lparr>txn_answers :=
       [sample_txn\<lparr>end_err := - 11\<rparr>, sample_txn\<lparr>end_err := - 11\<rparr>, sample_txn]\<rparr>"

section \<open>Properties\<close>

subsection \<open>Disconnect\<close>

text \<open>
  C9. Disconnect unbinds the rx handler if it is bound, then the tx handler if it is
  bound, and sets both handler fields to 0, the unbound sentinel; it has no error
  result. Run a second time in a row it changes nothing, so it adds no unbind to the log:
  disconnect after disconnect is disconnect.
\<close>

theorem disconnect_unbinds_rx_then_tx_idempotent:
  "rswitch_vmq_back_disconnect d =
     d\<lparr>log := log d @ (if rx_irq (be d) \<noteq> 0 then [Unbind (rx_irq (be d))] else [])
                     @ (if tx_irq (be d) \<noteq> 0 then [Unbind (tx_irq (be d))] else []),
       be := (be d)\<lparr>tx_irq := 0, rx_irq := 0\<rparr>\<rparr>
   \<and> rswitch_vmq_back_disconnect (rswitch_vmq_back_disconnect d) = rswitch_vmq_back_disconnect d
   \<and> events_since (rswitch_vmq_back_disconnect d)
        (rswitch_vmq_back_disconnect (rswitch_vmq_back_disconnect d)) = []"
  by (simp add: rswitch_vmq_back_disconnect_def emit_def events_since_def Let_def)

theorem disconnect_unbinds_rx_then_tx_idempotent_witness:
  "log (rswitch_vmq_back_disconnect
          (sample_dev\<lparr>be := sample_be\<lparr>tx_irq := 40, rx_irq := 41\<rparr>\<rparr>)) = [Unbind 41, Unbind 40]
   \<and> tx_irq (be (rswitch_vmq_back_disconnect
          (sample_dev\<lparr>be := sample_be\<lparr>tx_irq := 40, rx_irq := 41\<rparr>\<rparr>))) = 0
   \<and> rx_irq (be (rswitch_vmq_back_disconnect
          (sample_dev\<lparr>be := sample_be\<lparr>tx_irq := 40, rx_irq := 41\<rparr>\<rparr>))) = 0"
  using disconnect_unbinds_rx_then_tx_idempotent
          [of "sample_dev\<lparr>be := sample_be\<lparr>tx_irq := 40, rx_irq := 41\<rparr>\<rparr>"]
  by (simp add: sample_dev_def sample_be_def)

subsection \<open>The datapath interrupt bridge\<close>

text \<open>
  C10. Every call of the datapath interrupt bridge on a chain whose back reference
  leads to an attachment signals both notification channels of that attachment, the rx
  event channel and then the tx event channel, whatever the direction of the chain.
\<close>

theorem data_irq_signals_both_channels:
  assumes "back_info c = Some p" and "mem p = Some b"
  shows "rswitch_vmq_back_data_irq mem (c\<lparr>dir_tx := dir\<rparr>) =
           Inr [Notify (rx_evtchn b), Notify (tx_evtchn b)]"
  using assms by (simp add: rswitch_vmq_back_data_irq_def)

theorem data_irq_signals_both_channels_witness:
  "rswitch_vmq_back_data_irq [1 \<mapsto> sample_be\<lparr>tx_evtchn := 10, rx_evtchn := 11\<rparr>]
     (\<lparr>index = 0, back_info = Some 1, dir_tx = True, chain_osid = 5\<rparr>\<lparr>dir_tx := False\<rparr>) =
     Inr [Notify 11, Notify 10]"
  using data_irq_signals_both_channels
          [of "\<lparr>index = 0, back_info = Some 1, dir_tx = True, chain_osid = 5\<rparr>" 1
              "[1 \<mapsto> sample_be\<lparr>tx_evtchn := 10, rx_evtchn := 11\<rparr>]"
              "sample_be\<lparr>tx_evtchn := 10, rx_evtchn := 11\<rparr>" False]
  by (simp add: sample_be_def)

subsection \<open>Connect\<close>

text \<open>
  C2. The claim asks that a Connect whose tx bind succeeds and whose rx bind fails unbinds
  the tx handler before it returns. The code does not: it returns the error of the rx
  bind with \<^verbatim>\<open>be->tx_irq\<close> holding the irq of the tx bind, \<^verbatim>\<open>be->rx_irq\<close> as it
  was, and no unbind among the events.
\<close>

theorem connect_rx_bind_failure_leaves_tx_bound:
  assumes "gather_err env = 0" and "0 \<le> bind_tx_ret env" and "bind_rx_ret env < 0"
  shows "rswitch_vmq_back_connect env d =
           (Inr (bind_rx_ret env),
            d\<lparr>log := log d @ [BindTx (gather_tx_evt env) (bind_tx_ret env),
                                BindRx (gather_rx_evt env) (bind_rx_ret env),
                                DevFatal (bind_rx_ret env)],
              be := (be d)\<lparr>tx_evtchn := gather_tx_evt env, rx_evtchn := gather_rx_evt env,
                            tx_irq := bind_tx_ret env\<rparr>\<rparr>)"
  using assms
  by (simp add: rswitch_vmq_back_connect_def Let_def emit_def xenbus_dev_fatal_def)

theorem connect_rx_bind_failure_leaves_tx_bound_witness:
  "fst (rswitch_vmq_back_connect (sample_env\<lparr>bind_rx_ret := - 16\<rparr>) sample_dev) = Inr (- 16)
   \<and> tx_irq (be (snd (rswitch_vmq_back_connect (sample_env\<lparr>bind_rx_ret := - 16\<rparr>) sample_dev))) = 40
   \<and> rx_irq (be (snd (rswitch_vmq_back_connect (sample_env\<lparr>bind_rx_ret := - 16\<rparr>) sample_dev))) = 0
   \<and> log (snd (rswitch_vmq_back_connect (sample_env\<lparr>bind_rx_ret := - 16\<rparr>) sample_dev)) =
       [BindTx 10 40, BindRx 11 (- 16), DevFatal (- 16)]"
  using connect_rx_bind_failure_leaves_tx_bound [of "sample_env\<lparr>bind_rx_ret := - 16\<rparr>" sample_dev]
  by (simp add: sample_env_def sample_dev_def sample_be_def)


subsection \<open>The state machine\<close>

lemma published_append: "published (xs @ ys) = published xs @ published ys"
  by (induction xs rule: published.induct) simp_all

lemma edges_ok_append:
  "edges_ok s (xs @ ys) = (edges_ok s xs \<and> edges_ok (last (s # xs)) ys)"
  by (induction xs arbitrary: s) simp_all

lemma run_okI:
  assumes "log d' = log d @ es" "edges_ok (state d) (published es)"
    "state d' = last (state d # published es)"
  shows "run_ok d d'"
  using assms by (simp add: run_ok_def events_since_def)

lemma run_okD:
  assumes "run_ok d d'"
  shows "log d' = log d @ events_since d d'"
  using assms unfolding run_ok_def events_since_def
  by (metis append_take_drop_id)

lemma run_ok_refl: "run_ok d d"
  by (rule run_okI[where es = "[]"]) simp_all

lemma run_ok_trans:
  assumes "run_ok a b" "run_ok b c"
  shows "run_ok a c"
proof -
  have ab: "log b = log a @ events_since a b" using assms(1) by (rule run_okD)
  have bc: "log c = log b @ events_since b c" using assms(2) by (rule run_okD)
  have e1: "edges_ok (state a) (published (events_since a b))"
    and s1: "state b = last (state a # published (events_since a b))"
    using assms(1) by (simp_all add: run_ok_def)
  have e2: "edges_ok (state b) (published (events_since b c))"
    and s2: "state c = last (state b # published (events_since b c))"
    using assms(2) by (simp_all add: run_ok_def)
  show ?thesis
  proof (rule run_okI[where es = "events_since a b @ events_since b c"])
    show "log c = log a @ events_since a b @ events_since b c"
      using ab bc by simp
    show "edges_ok (state a) (published (events_since a b @ events_since b c))"
      using e1 e2 s1 by (simp add: published_append edges_ok_append)
    show "state c = last (state a # published (events_since a b @ events_since b c))"
      using s1 s2 by (simp add: published_append)
  qed
qed

lemma run_ok_connect: "run_ok d (snd (rswitch_vmq_back_connect env d))"
  by (rule run_okI[where es = "events_since d (snd (rswitch_vmq_back_connect env d))"])
     (auto simp: rswitch_vmq_back_connect_def Let_def emit_def xenbus_dev_fatal_def
        events_since_def split: rdev_ptr.splits option.splits)

lemma run_ok_disconnect: "run_ok d (rswitch_vmq_back_disconnect d)"
  by (rule run_okI[where es = "events_since d (rswitch_vmq_back_disconnect d)"])
     (auto simp: rswitch_vmq_back_disconnect_def Let_def emit_def events_since_def)

lemma run_ok_WARN_ON: "run_ok d (WARN_ON d)"
  by (rule run_okI[where es = "[Warn]"]) (simp_all add: WARN_ON_def emit_def)

lemma run_ok_switch:
  "table_edge (state d) s \<Longrightarrow> run_ok d (xenbus_switch_state d s)"
  by (rule run_okI[where es = "[SwitchState s]"]) (simp_all add: xenbus_switch_state_def emit_def)

lemma state_connect: "state (snd (rswitch_vmq_back_connect env d)) = state d"
  by (auto simp: rswitch_vmq_back_connect_def Let_def emit_def xenbus_dev_fatal_def
        split: rdev_ptr.splits option.splits)

lemma state_disconnect: "state (rswitch_vmq_back_disconnect d) = state d"
  by (simp add: rswitch_vmq_back_disconnect_def Let_def emit_def)

lemma run_ok_body: "run_ok d (snd (set_backend_state_body env d st))"
proof -
  have c: "run_ok d (xenbus_switch_state (snd (rswitch_vmq_back_connect env d)) XenbusStateConnected)"
    if "state d = XenbusStateInitWait \<or> state d = XenbusStateInitialised"
    using that run_ok_trans[OF run_ok_connect[of d env]
        run_ok_switch[of "snd (rswitch_vmq_back_connect env d)" XenbusStateConnected]]
    by (auto simp: state_connect)
  have dc: "run_ok d (xenbus_switch_state (rswitch_vmq_back_disconnect d) XenbusStateClosing)"
    if "state d = XenbusStateConnected"
    using that run_ok_trans[OF run_ok_disconnect[of d]
        run_ok_switch[of "rswitch_vmq_back_disconnect d" XenbusStateClosing]]
    by (auto simp: state_disconnect)
  show ?thesis
    using c dc run_ok_connect[of d env]
    by (auto simp: set_backend_state_body_def run_ok_WARN_ON run_ok_switch
          split: prod.splits sum.splits)
qed

lemma run_ok_set_backend_state: "run_ok d (snd (set_backend_state n env d st))"
proof (induction n arbitrary: d)
  case 0
  show ?case by (simp add: run_ok_refl)
next
  case (Suc n)
  show ?case
  proof (cases "set_backend_state_body env d st")
    case (Pair r d')
    have b: "run_ok d d'" using run_ok_body[of d env st] Pair by simp
    show ?thesis
      using Pair b run_ok_trans[OF b Suc.IH[of d']]
      by (simp add: run_ok_refl split: option.splits)
  qed
qed

lemma run_ok_seq: "run_ok d (snd (set_backend_state_seq n reqs d))"
proof (induction reqs arbitrary: d)
  case Nil
  show ?case by (simp add: run_ok_refl)
next
  case (Cons rq reqs)
  obtain env st where rq: "rq = (env, st)" by (cases rq)
  obtain r d' where res: "set_backend_state n env d st = (r, d')"
    by (cases "set_backend_state n env d st")
  have b: "run_ok d d'" using run_ok_set_backend_state[of d n env st] res by simp
  show ?case
    using rq res b run_ok_trans[OF b Cons.IH[of d']]
    by (cases r) simp_all
qed

lemma set_backend_state_reached:
  "state d = st \<Longrightarrow> set_backend_state n env d st = (Returned, d)"
  by (cases n) simp_all


text \<open>
  C6. The claim asks that the driver loop stops on a pair of states without an edge.
  The code does not: where the current state differs from the desired one and no
  \<^verbatim>\<open>case\<close> applies, an iteration warns and leaves the state as it was, so after any
  number \<open>n\<close> of iterations the loop is still running, with \<open>n\<close> warnings logged.
\<close>

theorem set_backend_state_spins_without_edge:
  assumes "state d \<noteq> st" and "\<not> edge_applies (state d) st"
  shows "set_backend_state n env d st = (Spinning, d\<lparr>log := log d @ replicate n Warn\<rparr>)"
  using assms
proof (induction n arbitrary: d)
  case 0
  then show ?case by simp
next
  case (Suc n)
  have b: "set_backend_state_body env d st = (None, WARN_ON d)"
    using Suc.prems by (auto simp: set_backend_state_body_def edge_applies_def)
  have s: "state (WARN_ON d) = state d"
    by (simp add: WARN_ON_def emit_def)
  have "set_backend_state (Suc n) env d st = set_backend_state n env (WARN_ON d) st"
    using Suc.prems(1) b by simp
  also have "\<dots> = (Spinning, (WARN_ON d)\<lparr>log := log (WARN_ON d) @ replicate n Warn\<rparr>)"
    using Suc.prems s by (intro Suc.IH) simp_all
  also have "\<dots> = (Spinning, d\<lparr>log := log d @ replicate (Suc n) Warn\<rparr>)"
    by (simp add: WARN_ON_def emit_def replicate_append_same)
  finally show ?case .
qed

theorem set_backend_state_spins_without_edge_witness:
  "set_backend_state 3 sample_env (sample_dev\<lparr>state := XenbusStateReconfigured\<rparr>) XenbusStateClosed =
     (Spinning, sample_dev\<lparr>state := XenbusStateReconfigured, log := [Warn, Warn, Warn]\<rparr>)"
  using set_backend_state_spins_without_edge [of "sample_dev\<lparr>state := XenbusStateReconfigured\<rparr>" XenbusStateClosed 3 sample_env]
  by (simp add: edge_applies_def sample_dev_def eval_nat_numeral)


text \<open>
  C1. For every sequence of desired states handed to \<open>set_backend_state\<close>, every state
  the backend publishes is reached from the state published before along an edge of the
  table, and \<^verbatim>\<open>dev->state\<close> is the last state published. When Connect fails on the
  edge from InitWait or Initialised to Connected, the loop stops, the state is the one
  before the call and nothing is published.
\<close>

theorem published_state_follows_table_edges:
  "edges_ok (state d) (published (events_since d (snd (set_backend_state_seq n reqs d))))
   \<and> state (snd (set_backend_state_seq n reqs d)) =
       last (state d # published (events_since d (snd (set_backend_state_seq n reqs d))))
   \<and> ((state d = XenbusStateInitWait \<or> state d = XenbusStateInitialised)
        \<and> fst (rswitch_vmq_back_connect env d) \<noteq> Inr 0 \<longrightarrow>
          set_backend_state (Suc n) env d XenbusStateConnected =
            (case fst (rswitch_vmq_back_connect env d) of Inl f \<Rightarrow> Crashed | Inr r \<Rightarrow> Returned,
             snd (rswitch_vmq_back_connect env d))
          \<and> state (snd (rswitch_vmq_back_connect env d)) = state d
          \<and> published (events_since d (snd (rswitch_vmq_back_connect env d))) = [])"
proof -
  have seq: "run_ok d (snd (set_backend_state_seq n reqs d))" by (rule run_ok_seq)
  have con: "run_ok d (snd (rswitch_vmq_back_connect env d))" by (rule run_ok_connect)
  have st: "state (snd (rswitch_vmq_back_connect env d)) = state d" by (rule state_connect)
  have nopub: "published (events_since d (snd (rswitch_vmq_back_connect env d))) = []"
    by (auto simp: rswitch_vmq_back_connect_def Let_def emit_def xenbus_dev_fatal_def
        events_since_def split: rdev_ptr.splits option.splits)
  have stop: "set_backend_state (Suc n) env d XenbusStateConnected =
            (case fst (rswitch_vmq_back_connect env d) of Inl f \<Rightarrow> Crashed | Inr r \<Rightarrow> Returned,
             snd (rswitch_vmq_back_connect env d))"
    if "state d = XenbusStateInitWait \<or> state d = XenbusStateInitialised"
      and "fst (rswitch_vmq_back_connect env d) \<noteq> Inr 0"
    using that
    by (cases "rswitch_vmq_back_connect env d")
       (auto simp: set_backend_state_body_def split: sum.splits)
  show ?thesis
    using seq st nopub stop by (simp add: run_ok_def)
qed

theorem published_state_follows_table_edges_witness:
  "published (events_since sample_dev (snd (set_backend_state_seq (Suc (Suc (Suc 0)))
       [(sample_env\<lparr>bind_rx_ret := - 16\<rparr>, XenbusStateConnected),
        (sample_env, XenbusStateConnected), (sample_env, XenbusStateClosed)] sample_dev))) =
     [XenbusStateConnected, XenbusStateClosing, XenbusStateClosed]
   \<and> edges_ok XenbusStateInitWait [XenbusStateConnected, XenbusStateClosing, XenbusStateClosed]
   \<and> state sample_dev = XenbusStateInitWait
   \<and> fst (rswitch_vmq_back_connect (sample_env\<lparr>bind_rx_ret := - 16\<rparr>) sample_dev) = Inr (- 16)
   \<and> fst (set_backend_state (Suc (Suc (Suc (Suc 0)))) (sample_env\<lparr>bind_rx_ret := - 16\<rparr>)
            sample_dev XenbusStateConnected) = Returned
   \<and> state (snd (set_backend_state (Suc (Suc (Suc (Suc 0)))) (sample_env\<lparr>bind_rx_ret := - 16\<rparr>)
            sample_dev XenbusStateConnected)) = XenbusStateInitWait"
  using published_state_follows_table_edges
          [of sample_dev "Suc (Suc (Suc 0))"
              "[(sample_env\<lparr>bind_rx_ret := - 16\<rparr>, XenbusStateConnected),
                (sample_env, XenbusStateConnected), (sample_env, XenbusStateClosed)]"
              "sample_env\<lparr>bind_rx_ret := - 16\<rparr>"]
  by (simp add: sample_dev_def sample_env_def sample_be_def set_backend_state_body_def
        rswitch_vmq_back_connect_def rswitch_vmq_back_disconnect_def xenbus_switch_state_def
        xenbus_dev_fatal_def emit_def events_since_def Let_def)

subsection \<open>The frontend callback\<close>

lemma close_from_table_state:
  assumes "state d = XenbusStateClosed \<or> state d = XenbusStateInitWait
           \<or> state d = XenbusStateInitialised \<or> state d = XenbusStateConnected
           \<or> state d = XenbusStateClosing"
  shows "fst (set_backend_state (Suc (Suc n)) env d XenbusStateClosed) = Returned
       \<and> state (snd (set_backend_state (Suc (Suc n)) env d XenbusStateClosed)) = XenbusStateClosed
       \<and> published (events_since d (snd (set_backend_state (Suc (Suc n)) env d XenbusStateClosed))) =
           (if state d = XenbusStateClosed then []
            else if state d = XenbusStateClosing then [XenbusStateClosed]
            else [XenbusStateClosing, XenbusStateClosed])
       \<and> DeviceUnregister \<notin> set (events_since d (snd (set_backend_state (Suc (Suc n)) env d XenbusStateClosed)))"
  using assms
  by (auto simp: set_backend_state_body_def set_backend_state_reached xenbus_switch_state_def
        emit_def events_since_def rswitch_vmq_back_disconnect_def Let_def)


text \<open>
  C8, as the code has it. Started in a state of the table (Closed, InitWait, Initialised,
  Connected or Closing), the callback for a peer that announces Closed runs the path
  through Closing to Closed; when the device is online it does nothing more, and the
  device stays registered; when the device is not online, and likewise when the peer
  state is \<open>XenbusStateUnknown\<close>, it then unregisters the device. A state that no
  \<^verbatim>\<open>case\<close> of the callback names (InitWait, Reconfigured) is only reported as fatal:
  nothing is published and the device stays registered.
\<close>

theorem frontend_closed_unknown_dispatch:
  assumes "state d = XenbusStateClosed \<or> state d = XenbusStateInitWait
           \<or> state d = XenbusStateInitialised \<or> state d = XenbusStateConnected
           \<or> state d = XenbusStateClosing"
  shows "let d0 = d\<lparr>be := (be d)\<lparr>frontend_state := fs\<rparr>\<rparr>;
             d1 = snd (set_backend_state (Suc (Suc n)) env d0 XenbusStateClosed)
         in state d1 = XenbusStateClosed
          \<and> published (events_since d d1) =
               (if state d = XenbusStateClosed then []
                else if state d = XenbusStateClosing then [XenbusStateClosed]
                else [XenbusStateClosing, XenbusStateClosed])
          \<and> DeviceUnregister \<notin> set (events_since d d1)
          \<and> (fs = XenbusStateClosed \<and> dev_is_online env \<longrightarrow>
                rswitch_vmq_frontend_changed (Suc (Suc n)) env d fs = (Returned, d1))
          \<and> (fs = XenbusStateClosed \<and> \<not> dev_is_online env \<or> fs = XenbusStateUnknown \<longrightarrow>
                rswitch_vmq_frontend_changed (Suc (Suc n)) env d fs = (Returned, device_unregister d1))
          \<and> (fs = XenbusStateInitWait \<or> fs = XenbusStateReconfigured \<longrightarrow>
                rswitch_vmq_frontend_changed (Suc (Suc n)) env d fs =
                  (Returned, xenbus_dev_fatal d0 (- EINVAL)))"
proof -
  define d0 where "d0 = d\<lparr>be := (be d)\<lparr>frontend_state := fs\<rparr>\<rparr>"
  define r where "r = set_backend_state (Suc (Suc n)) env d0 XenbusStateClosed"
  have st0: "state d0 = state d" and lg0: "log d0 = log d"
    by (simp_all add: d0_def)
  have es: "events_since d x = events_since d0 x" for x :: vmq_dev
    by (simp add: events_since_def lg0)
  have five: "state d0 = XenbusStateClosed \<or> state d0 = XenbusStateInitWait
           \<or> state d0 = XenbusStateInitialised \<or> state d0 = XenbusStateConnected
           \<or> state d0 = XenbusStateClosing"
    using assms st0 by simp
  note cl = close_from_table_state[OF five, of n env, folded r_def]
  define d1 where "d1 = snd r"
  have R: "set_backend_state (Suc (Suc n)) env d0 XenbusStateClosed = (Returned, d1)"
    using cl unfolding d1_def r_def by (cases "set_backend_state (Suc (Suc n)) env d0 XenbusStateClosed") simp
  have A: "set_backend_state (Suc (Suc n)) env d1 XenbusStateClosed = (Returned, d1)"
    using cl unfolding d1_def by (intro set_backend_state_reached) simp
  have a: "rswitch_vmq_frontend_changed (Suc (Suc n)) env d fs = (Returned, d1)"
    if "dev_is_online env" and "fs = XenbusStateClosed"
    unfolding rswitch_vmq_frontend_changed_def Let_def d0_def[symmetric]
    by (simp add: R A that del: set_backend_state.simps)
  have b: "rswitch_vmq_frontend_changed (Suc (Suc n)) env d fs = (Returned, device_unregister d1)"
    if "\<not> dev_is_online env" and "fs = XenbusStateClosed"
    unfolding rswitch_vmq_frontend_changed_def Let_def d0_def[symmetric]
    by (simp add: R A that del: set_backend_state.simps)
  have c: "rswitch_vmq_frontend_changed (Suc (Suc n)) env d fs = (Returned, device_unregister d1)"
    if "fs = XenbusStateUnknown"
    unfolding rswitch_vmq_frontend_changed_def Let_def d0_def[symmetric]
    by (simp add: R A that del: set_backend_state.simps)
  have e: "rswitch_vmq_frontend_changed (Suc (Suc n)) env d fs = (Returned, xenbus_dev_fatal d0 (- EINVAL))"
    if "fs = XenbusStateInitWait \<or> fs = XenbusStateReconfigured"
    unfolding rswitch_vmq_frontend_changed_def Let_def d0_def[symmetric]
    using that by auto
  show ?thesis
    unfolding Let_def d0_def[symmetric] r_def[symmetric] d1_def[symmetric]
    using cl[folded d1_def] a b c e by (auto simp: es st0)
qed

theorem frontend_closed_unknown_dispatch_witness:
  "rswitch_vmq_frontend_changed (Suc (Suc 0)) sample_env
      (sample_dev\<lparr>state := XenbusStateConnected, be := sample_be\<lparr>tx_irq := 40, rx_irq := 41\<rparr>\<rparr>)
      XenbusStateClosed =
     (Returned,
      \<lparr>state = XenbusStateClosed,
       log = [Unbind 41, Unbind 40, SwitchState XenbusStateClosing, SwitchState XenbusStateClosed,
              DeviceUnregister],
       be = sample_be\<lparr>frontend_state := XenbusStateClosed\<rparr>\<rparr>)"
  using frontend_closed_unknown_dispatch [of "sample_dev\<lparr>state := XenbusStateConnected, be := sample_be\<lparr>tx_irq := 40, rx_irq := 41\<rparr>\<rparr>"
               XenbusStateClosed 0 sample_env]
  by (simp add: sample_dev_def sample_env_def sample_be_def set_backend_state_body_def
        rswitch_vmq_back_disconnect_def xenbus_switch_state_def device_unregister_def
        emit_def events_since_def Let_def)


text \<open>
  The claim C8 as stated fails: the peer announces a state the callback does not
  recognise, and the backend neither runs the path to Closed nor unregisters the device.
\<close>

theorem frontend_unrecognized_state_counterexample:
  "rswitch_vmq_frontend_changed (Suc (Suc 0)) sample_env sample_dev XenbusStateReconfigured =
     (Returned, sample_dev\<lparr>log := [DevFatal (- 22)],
                           be := sample_be\<lparr>frontend_state := XenbusStateReconfigured\<rparr>\<rparr>)
   \<and> state sample_dev = XenbusStateInitWait
   \<and> DeviceUnregister \<notin> set (log (snd (rswitch_vmq_frontend_changed (Suc (Suc 0)) sample_env
          sample_dev XenbusStateReconfigured)))"
  by (simp add: rswitch_vmq_frontend_changed_def sample_dev_def sample_be_def
        xenbus_dev_fatal_def emit_def EINVAL_def Let_def)

subsection \<open>Attach\<close>

lemma publish_exit_nonzero:
  "publish_chain_ids ts b h = (GotoFail err, h') \<or> publish_chain_ids ts b h = (GotoAbort err, h')
     \<Longrightarrow> err \<noteq> 0"
  by (induction ts arbitrary: h)
     (auto simp: Let_def split: if_splits option.splits rdev_ptr.splits)

lemma publish_done:
  assumes "publish_chain_ids ts b h = (LoopDone 0, h')"
  shows "\<exists>tc rc r k.
           tx_chain b = Some tc \<and> rx_chain b = Some rc \<and> rdev b = Rdev r
         \<and> h' = h\<lparr>log := log h @ concat (replicate k
                        (attempt_events (index tc) (index rc) (rdev_rx_chain_index r) (- EAGAIN)))
                      @ attempt_events (index tc) (index rc) (rdev_rx_chain_index r) 0,
                  xstore := (xstore h)(''tx-chain-id'' \<mapsto> index tc, ''rx-chain-id'' \<mapsto> index rc,
                               ''remote-chain-id'' \<mapsto> rdev_rx_chain_index r),
                  txn := [],
                  seen := seen h @ replicate (5 * k + 4) (xstore h)
                      @ [(xstore h)(''tx-chain-id'' \<mapsto> index tc, ''rx-chain-id'' \<mapsto> index rc,
                               ''remote-chain-id'' \<mapsto> rdev_rx_chain_index r)]\<rparr>"
  using assms
proof (induction ts arbitrary: h)
  case Nil
  then show ?case by simp
next
  case (Cons t ts)
  from Cons.prems obtain tc rc r where
    b: "tx_chain b = Some tc" "rx_chain b = Some rc" "rdev b = Rdev r"
    and z: "start_err t = 0" "printf_tx_err t = 0" "printf_rx_err t = 0" "printf_remote_err t = 0"
    by (auto simp: Let_def split: if_splits option.splits rdev_ptr.splits)
  define i where "i = index tc"
  define j where "j = index rc"
  define m where "m = rdev_rx_chain_index r"
  define h5 where "h5 = xenbus_transaction_end
      (xenbus_printf (xenbus_printf (xenbus_printf (xenbus_transaction_start h 0) 0 ''tx-chain-id'' i)
          0 ''rx-chain-id'' j) 0 ''remote-chain-id'' m) (end_err t) False"
  have step: "publish_chain_ids (t # ts) b h =
      (if end_err t = - EAGAIN then publish_chain_ids ts b h5 else (LoopDone (end_err t), h5))"
    using b z by (simp add: Let_def h5_def i_def j_def m_def)
  show ?case
  proof (cases "end_err t = - EAGAIN")
    case True
    have h5: "h5 = h\<lparr>log := log h @ attempt_events i j m (- EAGAIN), txn := [],
                      seen := seen h @ replicate 5 (xstore h)\<rparr>"
      using True
      by (simp add: h5_def xenbus_transaction_end_def xenbus_printf_def xenbus_transaction_start_def
            observe_def emit_def attempt_events_def EAGAIN_def eval_nat_numeral)
    from Cons.prems step True have "publish_chain_ids ts b h5 = (LoopDone 0, h')" by simp
    from Cons.IH[OF this] obtain tc' rc' r' k where
      b': "tx_chain b = Some tc'" "rx_chain b = Some rc'" "rdev b = Rdev r'"
      and H: "h' = h5\<lparr>log := log h5 @ concat (replicate k
                        (attempt_events (index tc') (index rc') (rdev_rx_chain_index r') (- EAGAIN)))
                      @ attempt_events (index tc') (index rc') (rdev_rx_chain_index r') 0,
                  xstore := (xstore h5)(''tx-chain-id'' \<mapsto> index tc', ''rx-chain-id'' \<mapsto> index rc',
                               ''remote-chain-id'' \<mapsto> rdev_rx_chain_index r'),
                  txn := [],
                  seen := seen h5 @ replicate (5 * k + 4) (xstore h5)
                      @ [(xstore h5)(''tx-chain-id'' \<mapsto> index tc', ''rx-chain-id'' \<mapsto> index rc',
                               ''remote-chain-id'' \<mapsto> rdev_rx_chain_index r')]\<rparr>"
      by blast
    have same: "tc' = tc" "rc' = rc" "r' = r" using b b' by simp_all
    note h' = H[unfolded same, folded i_def j_def m_def]
    have rep: "replicate 5 x @ replicate (5 * k + 4) x = replicate (5 * Suc k + 4) x" for x :: "string \<rightharpoonup> int"
      by (simp add: replicate_add[symmetric])
    have "h' = h\<lparr>log := log h @ concat (replicate (Suc k) (attempt_events i j m (- EAGAIN)))
                      @ attempt_events i j m 0,
                  xstore := (xstore h)(''tx-chain-id'' \<mapsto> i, ''rx-chain-id'' \<mapsto> j,
                               ''remote-chain-id'' \<mapsto> m),
                  txn := [],
                  seen := seen h @ replicate (5 * Suc k + 4) (xstore h)
                      @ [(xstore h)(''tx-chain-id'' \<mapsto> i, ''rx-chain-id'' \<mapsto> j,
                               ''remote-chain-id'' \<mapsto> m)]\<rparr>"
      unfolding h' h5 rep[symmetric] by simp
    then show ?thesis using b unfolding i_def j_def m_def by blast
  next
    case False
    with Cons.prems step have e0: "end_err t = 0" and hh: "h' = h5" by simp_all
    have "h' = h\<lparr>log := log h @ concat (replicate 0 (attempt_events i j m (- EAGAIN)))
                      @ attempt_events i j m 0,
                  xstore := (xstore h)(''tx-chain-id'' \<mapsto> i, ''rx-chain-id'' \<mapsto> j,
                               ''remote-chain-id'' \<mapsto> m),
                  txn := [],
                  seen := seen h @ replicate (5 * 0 + 4) (xstore h)
                      @ [(xstore h)(''tx-chain-id'' \<mapsto> i, ''rx-chain-id'' \<mapsto> j,
                               ''remote-chain-id'' \<mapsto> m)]\<rparr>"
      unfolding hh using e0
      by (simp add: h5_def xenbus_transaction_end_def xenbus_printf_def xenbus_transaction_start_def
            observe_def emit_def attempt_events_def eval_nat_numeral)
    then show ?thesis using b unfolding i_def j_def m_def by blast
  qed
qed

lemma ndev_register_frame:
  "\<exists>es. snd (rswitch_vmq_back_ndev_register nenv idx h) = h\<lparr>log := log h @ es\<rparr>
        \<and> filter is_store_event es = []"
proof -
  have "snd (rswitch_vmq_back_ndev_register nenv idx h) =
          h\<lparr>log := log h @ drop (length (log h)) (log (snd (rswitch_vmq_back_ndev_register nenv idx h)))\<rparr>
        \<and> filter is_store_event
            (drop (length (log h)) (log (snd (rswitch_vmq_back_ndev_register nenv idx h)))) = []"
    by (simp add: rswitch_vmq_back_ndev_register_def Let_def emit_def)
  then show ?thesis by blast
qed

lemma gwca_get_frame:
  "gwca_get h = (c, h1) \<Longrightarrow>
     h1 = h\<lparr>log := log h @ [GwcaGet (map_option index c)], gwca := gwca h1\<rparr>"
  by (auto simp: gwca_get_def emit_def split: prod.splits)

lemma IS_ERR_PTR_ERR: "IS_ERR rp \<Longrightarrow> PTR_ERR rp \<noteq> 0"
  by (cases rp) (simp_all add: IS_ERR_def PTR_ERR_def)

lemma probe_fail_ret: "fst (probe_fail err p b hh) = ProbeRet err"
  by (simp add: probe_fail_def Let_def)

lemma ids_visible_published:
  "ids_visible (m(''tx-chain-id'' \<mapsto> i, ''rx-chain-id'' \<mapsto> j, ''remote-chain-id'' \<mapsto> k)) = 3"
  by (simp add: ids_visible_def)


lemma probe_success_shape:
  assumes "rswitch_vmq_back_probe env h = (ProbeRet 0, h')"
  shows "\<exists>p b tc rc r k.
           drvdata h' = Some p \<and> heap h' p = Some b
         \<and> tx_chain b = Some tc \<and> rx_chain b = Some rc \<and> rdev b = Rdev r
         \<and> xstore h' = (xstore h)(''tx-chain-id'' \<mapsto> index tc, ''rx-chain-id'' \<mapsto> index rc,
                                    ''remote-chain-id'' \<mapsto> rdev_rx_chain_index r)
         \<and> filter is_store_event (events_since h h') =
             concat (replicate k
               (attempt_events (index tc) (index rc) (rdev_rx_chain_index r) (- EAGAIN)))
             @ attempt_events (index tc) (index rc) (rdev_rx_chain_index r) 0
         \<and> drop (length (seen h)) (seen h') = replicate (5 * k + 4) (xstore h) @ [xstore h']
         \<and> list_all (\<lambda>m. m = xstore h \<or> m = xstore h') (drop (length (seen h)) (seen h'))
         \<and> ids_visible (xstore h') = 3"
proof -
  obtain p where kz: "kzalloc_ret env = Some p"
    using assms by (cases "kzalloc_ret env") (simp_all add: rswitch_vmq_back_probe_def ENOMEM_def)
  have fp: "find_priv_ok env"
  proof (rule ccontr)
    assume "\<not> find_priv_ok env"
    then show False using assms kz by (simp add: rswitch_vmq_back_probe_def ENODEV_def)
  qed
  obtain tco h1 where g1: "gwca_get h = (tco, h1)" by (cases "gwca_get h")
  obtain rco h2 where g2: "gwca_get h1 = (rco, h2)" by (cases "gwca_get h1")
  have nofail: "probe_fail (- ENODEV) p b hh \<noteq> (ProbeRet 0, h')" for b hh
    using probe_fail_ret[of "- ENODEV" p b hh] by (auto simp: ENODEV_def)
  obtain r0 where rs: "rco = Some r0"
    using assms kz fp g1 g2 nofail
    by (cases rco) (simp_all add: rswitch_vmq_back_probe_def Let_def)
  obtain t0 where ts: "tco = Some t0"
    using assms kz fp g1 g2 rs nofail
    by (cases tco) (simp_all add: rswitch_vmq_back_probe_def Let_def)
  define oid where "oid = xenbus_read_unsigned (scan_osid env) 255"
  define t2 where "t2 = t0\<lparr>back_info := Some p, dir_tx := True, chain_osid := oid\<rparr>"
  define r2 where "r2 = r0\<lparr>back_info := Some p, dir_tx := False, chain_osid := oid\<rparr>"
  define b3 where "b3 = kzalloc_back_info\<lparr>tx_chain := Some t2, rx_chain := Some r2, osid := oid,
                          if_num := xenbus_read_unsigned (scan_if_num env) 255\<rparr>"
  define h3 where "h3 = h2\<lparr>drvdata := Some p\<rparr>"
  obtain rp h4 where nd:
    "rswitch_vmq_back_ndev_register (ndev_answers env) (if_num b3) h3 = (rp, h4)"
    by (cases "rswitch_vmq_back_ndev_register (ndev_answers env) (if_num b3) h3")
  define b4 where "b4 = b3\<lparr>rdev := rp\<rparr>"
  have eq: "rswitch_vmq_back_probe env h =
      (if IS_ERR rp
       then (ProbeRet (PTR_ERR rp), write_be p b4 (xenbus_dev_fatal h4 (PTR_ERR rp)))
       else
         (case publish_chain_ids (txn_answers env) b4 h4 of
            (LoopDone err, h5) \<Rightarrow>
              if err \<noteq> 0 then probe_fail err p b4 (xenbus_dev_fatal h5 err)
              else (ProbeRet 0, write_be p b4 (xenbus_switch_state h5 XenbusStateInitWait))
          | (GotoFail err, h5) \<Rightarrow> probe_fail err p b4 h5
          | (GotoAbort err, h5) \<Rightarrow>
              probe_fail err p b4 (xenbus_dev_fatal (xenbus_transaction_end h5 0 True) err)
          | (LoopFault, h5) \<Rightarrow> (ProbeFault, write_be p b4 h5)
          | (LoopRetrying, h5) \<Rightarrow> (ProbeRetrying, write_be p b4 h5)))"
    using kz fp g1 g2 rs ts nd[unfolded b3_def h3_def t2_def r2_def oid_def]
    by (simp add: rswitch_vmq_back_probe_def Let_def b4_def b3_def h3_def t2_def r2_def oid_def
          kzalloc_back_info_def split: prod.splits txn_exit.splits)
  have nerr: "\<not> IS_ERR rp"
    using assms eq IS_ERR_PTR_ERR[of rp] by auto
  obtain ex h5 where lp: "publish_chain_ids (txn_answers env) b4 h4 = (ex, h5)"
    by (cases "publish_chain_ids (txn_answers env) b4 h4")
  have pf: "probe_fail err p b hh = (ProbeRet 0, h') \<Longrightarrow> err = 0" for err b hh
    using probe_fail_ret[of err p b hh] by auto
  have ex: "ex = LoopDone 0"
    using assms eq nerr lp publish_exit_nonzero[of "txn_answers env" b4 h4 _ h5]
    by (cases ex) (auto split: if_splits dest: pf)
  have h': "h' = write_be p b4 (xenbus_switch_state h5 XenbusStateInitWait)"
    using assms eq nerr lp ex by simp
  from publish_done[OF lp[unfolded ex]] obtain tc rc r k where
    b: "tx_chain b4 = Some tc" "rx_chain b4 = Some rc" "rdev b4 = Rdev r"
    and h5: "h5 = h4\<lparr>log := log h4 @ concat (replicate k
                        (attempt_events (index tc) (index rc) (rdev_rx_chain_index r) (- EAGAIN)))
                      @ attempt_events (index tc) (index rc) (rdev_rx_chain_index r) 0,
                  xstore := (xstore h4)(''tx-chain-id'' \<mapsto> index tc, ''rx-chain-id'' \<mapsto> index rc,
                               ''remote-chain-id'' \<mapsto> rdev_rx_chain_index r),
                  txn := [],
                  seen := seen h4 @ replicate (5 * k + 4) (xstore h4)
                      @ [(xstore h4)(''tx-chain-id'' \<mapsto> index tc, ''rx-chain-id'' \<mapsto> index rc,
                               ''remote-chain-id'' \<mapsto> rdev_rx_chain_index r)]\<rparr>"
    by blast
  from ndev_register_frame[of "ndev_answers env" "if_num b3" h3] nd obtain es where
    h4: "h4 = h3\<lparr>log := log h3 @ es\<rparr>" and es: "filter is_store_event es = []"
    by auto
  note f1 = gwca_get_frame[OF g1] and f2 = gwca_get_frame[OF g2]
  have x4: "xstore h4 = xstore h" and s4: "seen h4 = seen h"
    and l4: "log h4 = log h @ [GwcaGet (map_option index tco), GwcaGet (map_option index rco)] @ es"
    unfolding h4 h3_def by (subst f2, subst f1, simp)+
  define A where "A = concat (replicate k
                        (attempt_events (index tc) (index rc) (rdev_rx_chain_index r) (- EAGAIN)))
                      @ attempt_events (index tc) (index rc) (rdev_rx_chain_index r) 0"
  have fA: "filter is_store_event A = A"
    unfolding A_def by (induction k) (simp_all add: attempt_events_def)
  have lg: "log h' = log h @ [GwcaGet (map_option index tco), GwcaGet (map_option index rco)] @ es
              @ A @ [SwitchState XenbusStateInitWait]"
    unfolding h' h5 A_def[symmetric]
    by (simp add: write_be_def xenbus_switch_state_def emit_def l4)
  have ev: "filter is_store_event (events_since h h') = A"
    by (simp add: events_since_def lg es fA)
  have xs': "xstore h' = (xstore h)(''tx-chain-id'' \<mapsto> index tc, ''rx-chain-id'' \<mapsto> index rc,
                                    ''remote-chain-id'' \<mapsto> rdev_rx_chain_index r)"
    unfolding h' h5 by (simp add: write_be_def xenbus_switch_state_def emit_def x4)
  have sn: "drop (length (seen h)) (seen h') = replicate (5 * k + 4) (xstore h) @ [xstore h']"
    unfolding xs' unfolding h' h5 by (simp add: write_be_def xenbus_switch_state_def emit_def x4 s4)
  have dd: "drvdata h' = Some p"
    unfolding h' h5 h4 h3_def by (simp add: write_be_def xenbus_switch_state_def emit_def)
  have hp: "heap h' p = Some b4"
    unfolding h' by (simp add: write_be_def)
  have la: "list_all (\<lambda>m. m = xstore h \<or> m = xstore h') (drop (length (seen h)) (seen h'))"
    unfolding sn by (auto simp: list_all_iff)
  show ?thesis
    using dd hp b xs' ev[unfolded A_def] sn la ids_visible_published[of "xstore h"]
    by (intro exI[of _ p] exI[of _ b4] exI[of _ tc] exI[of _ rc] exI[of _ r] exI[of _ k]) simp
qed

lemma publish_conflict_retries:
  assumes "conflict_attempt c" "tx_chain b = Some tc" "rx_chain b = Some rc" "rdev b = Rdev r"
  shows "publish_chain_ids (c # ts) b h =
           publish_chain_ids ts b
             (h\<lparr>log := log h @ attempt_events (index tc) (index rc) (rdev_rx_chain_index r) (- EAGAIN),
                txn := [], seen := seen h @ replicate 5 (xstore h)\<rparr>)"
proof -
  define h5 where "h5 = xenbus_transaction_end
      (xenbus_printf (xenbus_printf (xenbus_printf (xenbus_transaction_start h 0) 0 ''tx-chain-id''
          (index tc)) 0 ''rx-chain-id'' (index rc)) 0 ''remote-chain-id'' (rdev_rx_chain_index r))
      (- EAGAIN) False"
  have step: "publish_chain_ids (c # ts) b h = publish_chain_ids ts b h5"
    using assms by (simp add: conflict_attempt_def Let_def h5_def)
  have h5: "h5 = h\<lparr>log := log h @ attempt_events (index tc) (index rc) (rdev_rx_chain_index r) (- EAGAIN),
                txn := [], seen := seen h @ replicate 5 (xstore h)\<rparr>"
    by (simp add: h5_def xenbus_transaction_end_def xenbus_printf_def xenbus_transaction_start_def
          observe_def emit_def attempt_events_def EAGAIN_def eval_nat_numeral)
  show ?thesis unfolding step h5 ..
qed

lemma publish_accepted:
  assumes "accepted_attempt t" "tx_chain b = Some tc" "rx_chain b = Some rc" "rdev b = Rdev r"
  shows "publish_chain_ids (t # ts) b h =
           (LoopDone 0,
            h\<lparr>log := log h @ attempt_events (index tc) (index rc) (rdev_rx_chain_index r) 0,
              xstore := (xstore h)(''tx-chain-id'' \<mapsto> index tc, ''rx-chain-id'' \<mapsto> index rc,
                               ''remote-chain-id'' \<mapsto> rdev_rx_chain_index r),
              txn := [],
              seen := seen h @ replicate 4 (xstore h)
                      @ [(xstore h)(''tx-chain-id'' \<mapsto> index tc, ''rx-chain-id'' \<mapsto> index rc,
                               ''remote-chain-id'' \<mapsto> rdev_rx_chain_index r)]\<rparr>)"
  using assms
  by (simp add: accepted_attempt_def Let_def xenbus_transaction_end_def xenbus_printf_def
        xenbus_transaction_start_def observe_def emit_def attempt_events_def EAGAIN_def
        eval_nat_numeral)

lemma publish_retries_until_accepted:
  assumes "list_all conflict_attempt cs" "accepted_attempt t"
    "tx_chain b = Some tc" "rx_chain b = Some rc" "rdev b = Rdev r"
  shows "publish_chain_ids (cs @ t # ts) b h =
           (LoopDone 0,
            h\<lparr>log := log h @ concat (replicate (length cs)
                        (attempt_events (index tc) (index rc) (rdev_rx_chain_index r) (- EAGAIN)))
                      @ attempt_events (index tc) (index rc) (rdev_rx_chain_index r) 0,
              xstore := (xstore h)(''tx-chain-id'' \<mapsto> index tc, ''rx-chain-id'' \<mapsto> index rc,
                               ''remote-chain-id'' \<mapsto> rdev_rx_chain_index r),
              txn := [],
              seen := seen h @ replicate (5 * length cs + 4) (xstore h)
                      @ [(xstore h)(''tx-chain-id'' \<mapsto> index tc, ''rx-chain-id'' \<mapsto> index rc,
                               ''remote-chain-id'' \<mapsto> rdev_rx_chain_index r)]\<rparr>)"
  using assms(1)
proof (induction cs arbitrary: h)
  case Nil
  show ?case
    unfolding append_Nil publish_accepted[OF assms(2-5)]
    by (simp only: list.size(3) replicate_0 concat.simps(1) append_Nil mult_0_right add_0)
next
  case (Cons c cs)
  then have c: "conflict_attempt c" and cs: "list_all conflict_attempt cs" by simp_all
  define m where "m = (xstore h)(''tx-chain-id'' \<mapsto> index tc, ''rx-chain-id'' \<mapsto> index rc,
                               ''remote-chain-id'' \<mapsto> rdev_rx_chain_index r)"
  define X where "X = attempt_events (index tc) (index rc) (rdev_rx_chain_index r) (- EAGAIN)"
  define Y where "Y = attempt_events (index tc) (index rc) (rdev_rx_chain_index r) 0"
  define h5 where "h5 = h\<lparr>log := log h @ X, txn := [], seen := seen h @ replicate 5 (xstore h)\<rparr>"
  have f: "xstore h5 = xstore h" "log h5 = log h @ X" "seen h5 = seen h @ replicate 5 (xstore h)"
    by (simp_all add: h5_def)
  have rep: "replicate 5 x @ replicate (5 * length cs + 4) x = replicate (5 * length (c # cs) + 4) x"
    for x :: "string \<rightharpoonup> int"
    by (simp add: replicate_add[symmetric])
  have "publish_chain_ids ((c # cs) @ t # ts) b h = publish_chain_ids (cs @ t # ts) b h5"
    unfolding append_Cons publish_conflict_retries[OF c assms(3-5)] h5_def X_def ..
  also have "\<dots> = (LoopDone 0,
            h5\<lparr>log := log h5 @ concat (replicate (length cs) X) @ Y,
              xstore := (xstore h5)(''tx-chain-id'' \<mapsto> index tc, ''rx-chain-id'' \<mapsto> index rc,
                               ''remote-chain-id'' \<mapsto> rdev_rx_chain_index r),
              txn := [],
              seen := seen h5 @ replicate (5 * length cs + 4) (xstore h5)
                      @ [(xstore h5)(''tx-chain-id'' \<mapsto> index tc, ''rx-chain-id'' \<mapsto> index rc,
                               ''remote-chain-id'' \<mapsto> rdev_rx_chain_index r)]\<rparr>)"
    unfolding X_def Y_def by (rule Cons.IH[OF cs])
  also have "\<dots> = (LoopDone 0,
            h\<lparr>log := log h @ concat (replicate (length (c # cs)) X) @ Y,
              xstore := m, txn := [],
              seen := seen h @ replicate (5 * length (c # cs) + 4) (xstore h) @ [m]\<rparr>)"
    unfolding f m_def[symmetric] rep[symmetric] by (simp add: h5_def)
  finally show ?case unfolding m_def X_def Y_def .
qed

lemma probe_retries_until_accepted:
  assumes kz: "kzalloc_ret env = Some p" and fp: "find_priv_ok env"
    and g1: "gwca_get h = (Some t0, h1)" and g2: "gwca_get h1 = (Some r0, h2)"
    and nd: "alloc_etherdev_ok (ndev_answers env)" "register_netdev_err (ndev_answers env) = 0"
            "0 \<le> rxdmac_init_err (ndev_answers env)" "0 \<le> txdmac_init_err (ndev_answers env)"
    and ta: "txn_answers env = cs @ t # ts"
    and cs: "list_all conflict_attempt cs" and t: "accepted_attempt t"
  shows "fst (rswitch_vmq_back_probe env h) = ProbeRet 0
       \<and> filter is_store_event (events_since h (snd (rswitch_vmq_back_probe env h))) =
           concat (replicate (length cs)
             (attempt_events (index t0) (index r0) (rxdmac_chain_index (ndev_answers env)) (- EAGAIN)))
           @ attempt_events (index t0) (index r0) (rxdmac_chain_index (ndev_answers env)) 0
       \<and> xstore (snd (rswitch_vmq_back_probe env h)) =
           (xstore h)(''tx-chain-id'' \<mapsto> index t0, ''rx-chain-id'' \<mapsto> index r0,
                      ''remote-chain-id'' \<mapsto> rxdmac_chain_index (ndev_answers env))"
proof -
  define oid where "oid = xenbus_read_unsigned (scan_osid env) 255"
  define t2 where "t2 = t0\<lparr>back_info := Some p, dir_tx := True, chain_osid := oid\<rparr>"
  define r2 where "r2 = r0\<lparr>back_info := Some p, dir_tx := False, chain_osid := oid\<rparr>"
  define rd where "rd = \<lparr>remote_chain = - 1, rdev_rx_chain_index = rxdmac_chain_index (ndev_answers env)\<rparr>"
  define b4 where "b4 = kzalloc_back_info\<lparr>tx_chain := Some t2, rx_chain := Some r2, osid := oid,
                          if_num := xenbus_read_unsigned (scan_if_num env) 255, rdev := Rdev rd\<rparr>"
  define es where "es = [AllocEtherdev True,
      SetPrivRdev (sint (RSWITCH_BACK_BASE_INDEX + xenbus_read_unsigned (scan_if_num env) 255)),
      RegisterNetdev 0, RxdmacInit (rxdmac_init_err (ndev_answers env)),
      TxdmacInit (txdmac_init_err (ndev_answers env))]"
  define h4 where "h4 = h2\<lparr>drvdata := Some p, log := log h2 @ es\<rparr>"
  have b: "tx_chain b4 = Some t2" "rx_chain b4 = Some r2" "rdev b4 = Rdev rd"
    by (simp_all add: b4_def)
  have ix: "index t2 = index t0" "index r2 = index r0"
    "rdev_rx_chain_index rd = rxdmac_chain_index (ndev_answers env)"
    by (simp_all add: t2_def r2_def rd_def)
  note lp = publish_retries_until_accepted[OF cs t b, of ts h4, unfolded ix, folded ta]
  have eq: "rswitch_vmq_back_probe env h =
      (case publish_chain_ids (txn_answers env) b4 h4 of
            (LoopDone err, h5) \<Rightarrow>
              if err \<noteq> 0 then probe_fail err p b4 (xenbus_dev_fatal h5 err)
              else (ProbeRet 0, write_be p b4 (xenbus_switch_state h5 XenbusStateInitWait))
          | (GotoFail err, h5) \<Rightarrow> probe_fail err p b4 h5
          | (GotoAbort err, h5) \<Rightarrow>
              probe_fail err p b4 (xenbus_dev_fatal (xenbus_transaction_end h5 0 True) err)
          | (LoopFault, h5) \<Rightarrow> (ProbeFault, write_be p b4 h5)
          | (LoopRetrying, h5) \<Rightarrow> (ProbeRetrying, write_be p b4 h5))"
    using kz fp g1 g2 nd
    by (simp add: rswitch_vmq_back_probe_def rswitch_vmq_back_ndev_register_def Let_def IS_ERR_def
          emit_def b4_def h4_def es_def t2_def r2_def rd_def oid_def kzalloc_back_info_def
          split: prod.splits txn_exit.splits)
  note f1 = gwca_get_frame[OF g1] and f2 = gwca_get_frame[OF g2]
  have x4: "xstore h4 = xstore h"
    and l4: "log h4 = log h @ [GwcaGet (Some (index t0)), GwcaGet (Some (index r0))] @ es"
    unfolding h4_def by (subst f2, subst f1, simp)+
  have fes: "filter is_store_event es = []" by (simp add: es_def)
  define A where "A = concat (replicate (length cs)
             (attempt_events (index t0) (index r0) (rxdmac_chain_index (ndev_answers env)) (- EAGAIN)))
           @ attempt_events (index t0) (index r0) (rxdmac_chain_index (ndev_answers env)) 0"
  have fA: "filter is_store_event A = A"
    unfolding A_def by (induction cs) (simp_all add: attempt_events_def)
  show ?thesis
    unfolding eq lp A_def[symmetric]
    by (simp add: write_be_def xenbus_switch_state_def emit_def events_since_def l4 x4 fes fA)
qed

text \<open>
  C7. A successful Attach has written the three identifiers, the index of its tx chain,
  the index of its rx chain and the index of the receive chain of the local device, in
  transactions of exactly these three writes: some number \<open>k\<close> of attempts whose end
  reported a conflict (\<^verbatim>\<open>-EAGAIN\<close>), each followed by a whole new attempt, and one
  last attempt whose end reported success. What a reader of the store could see after
  each of these operations is the store as it was before (\<open>5 * k + 4\<close> times) and, after
  the last operation, the store with all three keys: never one or two of them more than
  before. The retry is unconditional: whenever the end of an attempt reports a conflict
  the loop starts a whole new transaction with the store unchanged, and an Attach that
  is answered any number of conflicts and then an accepted attempt returns 0 after
  exactly that many retries.
\<close>

theorem attach_publishes_ids_in_one_transaction:
  "(rswitch_vmq_back_probe env h = (ProbeRet 0, h') \<longrightarrow>
      (\<exists>p b tc rc r k.
           drvdata h' = Some p \<and> heap h' p = Some b
         \<and> tx_chain b = Some tc \<and> rx_chain b = Some rc \<and> rdev b = Rdev r
         \<and> xstore h' = (xstore h)(''tx-chain-id'' \<mapsto> index tc, ''rx-chain-id'' \<mapsto> index rc,
                                    ''remote-chain-id'' \<mapsto> rdev_rx_chain_index r)
         \<and> filter is_store_event (events_since h h') =
             concat (replicate k
               (attempt_events (index tc) (index rc) (rdev_rx_chain_index r) (- EAGAIN)))
             @ attempt_events (index tc) (index rc) (rdev_rx_chain_index r) 0
         \<and> drop (length (seen h)) (seen h') = replicate (5 * k + 4) (xstore h) @ [xstore h']
         \<and> list_all (\<lambda>m. m = xstore h \<or> m = xstore h') (drop (length (seen h)) (seen h'))
         \<and> ids_visible (xstore h') = 3))
   \<and> (kzalloc_ret env = Some p0 \<and> find_priv_ok env
        \<and> gwca_get h = (Some t0, h1) \<and> gwca_get h1 = (Some r0, h2)
        \<and> alloc_etherdev_ok (ndev_answers env) \<and> register_netdev_err (ndev_answers env) = 0
        \<and> 0 \<le> rxdmac_init_err (ndev_answers env) \<and> 0 \<le> txdmac_init_err (ndev_answers env)
        \<and> txn_answers env = cs @ t # ts \<and> list_all conflict_attempt cs \<and> accepted_attempt t
      \<longrightarrow>
        fst (rswitch_vmq_back_probe env h) = ProbeRet 0
      \<and> filter is_store_event (events_since h (snd (rswitch_vmq_back_probe env h))) =
           concat (replicate (length cs)
             (attempt_events (index t0) (index r0) (rxdmac_chain_index (ndev_answers env)) (- EAGAIN)))
           @ attempt_events (index t0) (index r0) (rxdmac_chain_index (ndev_answers env)) 0
      \<and> xstore (snd (rswitch_vmq_back_probe env h)) =
           (xstore h)(''tx-chain-id'' \<mapsto> index t0, ''rx-chain-id'' \<mapsto> index r0,
                      ''remote-chain-id'' \<mapsto> rxdmac_chain_index (ndev_answers env)))
   \<and> (conflict_attempt c \<and> tx_chain be0 = Some tc0 \<and> rx_chain be0 = Some rc0 \<and> rdev be0 = Rdev rd0
      \<longrightarrow>
        publish_chain_ids (c # rest) be0 hc =
          publish_chain_ids rest be0
            (hc\<lparr>log := log hc @ attempt_events (index tc0) (index rc0) (rdev_rx_chain_index rd0) (- EAGAIN),
                txn := [], seen := seen hc @ replicate 5 (xstore hc)\<rparr>))"
proof (intro conjI impI)
  assume "rswitch_vmq_back_probe env h = (ProbeRet 0, h')"
  then show "\<exists>p b tc rc r k.
           drvdata h' = Some p \<and> heap h' p = Some b
         \<and> tx_chain b = Some tc \<and> rx_chain b = Some rc \<and> rdev b = Rdev r
         \<and> xstore h' = (xstore h)(''tx-chain-id'' \<mapsto> index tc, ''rx-chain-id'' \<mapsto> index rc,
                                    ''remote-chain-id'' \<mapsto> rdev_rx_chain_index r)
         \<and> filter is_store_event (events_since h h') =
             concat (replicate k
               (attempt_events (index tc) (index rc) (rdev_rx_chain_index r) (- EAGAIN)))
             @ attempt_events (index tc) (index rc) (rdev_rx_chain_index r) 0
         \<and> drop (length (seen h)) (seen h') = replicate (5 * k + 4) (xstore h) @ [xstore h']
         \<and> list_all (\<lambda>m. m = xstore h \<or> m = xstore h') (drop (length (seen h)) (seen h'))
         \<and> ids_visible (xstore h') = 3"
    by (rule probe_success_shape)
next
  assume a: "kzalloc_ret env = Some p0 \<and> find_priv_ok env
        \<and> gwca_get h = (Some t0, h1) \<and> gwca_get h1 = (Some r0, h2)
        \<and> alloc_etherdev_ok (ndev_answers env) \<and> register_netdev_err (ndev_answers env) = 0
        \<and> 0 \<le> rxdmac_init_err (ndev_answers env) \<and> 0 \<le> txdmac_init_err (ndev_answers env)
        \<and> txn_answers env = cs @ t # ts \<and> list_all conflict_attempt cs \<and> accepted_attempt t"
  note r = probe_retries_until_accepted[of env p0 h t0 h1 r0 h2 cs t ts]
  from a r show "fst (rswitch_vmq_back_probe env h) = ProbeRet 0" by blast
  from a r show "filter is_store_event (events_since h (snd (rswitch_vmq_back_probe env h))) =
           concat (replicate (length cs)
             (attempt_events (index t0) (index r0) (rxdmac_chain_index (ndev_answers env)) (- EAGAIN)))
           @ attempt_events (index t0) (index r0) (rxdmac_chain_index (ndev_answers env)) 0"
    by blast
  from a r show "xstore (snd (rswitch_vmq_back_probe env h)) =
           (xstore h)(''tx-chain-id'' \<mapsto> index t0, ''rx-chain-id'' \<mapsto> index r0,
                      ''remote-chain-id'' \<mapsto> rxdmac_chain_index (ndev_answers env))"
    by blast
next
  assume "conflict_attempt c \<and> tx_chain be0 = Some tc0 \<and> rx_chain be0 = Some rc0 \<and> rdev be0 = Rdev rd0"
  then show "publish_chain_ids (c # rest) be0 hc =
          publish_chain_ids rest be0
            (hc\<lparr>log := log hc @ attempt_events (index tc0) (index rc0) (rdev_rx_chain_index rd0) (- EAGAIN),
                txn := [], seen := seen hc @ replicate 5 (xstore hc)\<rparr>)"
    using publish_conflict_retries[of c be0 tc0 rc0 rd0 rest hc] by blast
qed

theorem attach_publishes_ids_in_one_transaction_witness:
  "fst (rswitch_vmq_back_probe two_conflicts_env sample_host) = ProbeRet 0
   \<and> filter is_store_event
        (events_since sample_host (snd (rswitch_vmq_back_probe two_conflicts_env sample_host))) =
       attempt_events 1 2 9 (- 11) @ attempt_events 1 2 9 (- 11) @ attempt_events 1 2 9 0
   \<and> map (xstore (snd (rswitch_vmq_back_probe two_conflicts_env sample_host)))
        [''tx-chain-id'', ''rx-chain-id'', ''remote-chain-id''] = [Some 1, Some 2, Some 9]
   \<and> ids_visible (xstore (snd (rswitch_vmq_back_probe two_conflicts_env sample_host))) = 3"
proof -
  define c1 :: rswitch_gwca_chain where
    "c1 = \<lparr>index = 1, back_info = None, dir_tx = False, chain_osid = 0\<rparr>"
  define c2 :: rswitch_gwca_chain where
    "c2 = \<lparr>index = 2, back_info = None, dir_tx = False, chain_osid = 0\<rparr>"
  define g1 where "g1 = snd (gwca_get sample_host)"
  define g2 where "g2 = snd (gwca_get g1)"
  have e1: "gwca_get sample_host = (Some c1, g1)"
    by (simp add: g1_def c1_def gwca_get_def rswitch_gwca_get_def sample_host_def)
  have u1: "used (gwca g1) = [True, True, False, False]"
    by (simp add: g1_def gwca_get_def rswitch_gwca_get_def sample_host_def emit_def)
  have e2: "gwca_get g1 = (Some c2, g2)"
    by (simp add: g2_def c2_def gwca_get_def rswitch_gwca_get_def u1)
  have hyp: "kzalloc_ret two_conflicts_env = Some 1 \<and> find_priv_ok two_conflicts_env
        \<and> gwca_get sample_host = (Some c1, g1) \<and> gwca_get g1 = (Some c2, g2)
        \<and> alloc_etherdev_ok (ndev_answers two_conflicts_env)
        \<and> register_netdev_err (ndev_answers two_conflicts_env) = 0
        \<and> 0 \<le> rxdmac_init_err (ndev_answers two_conflicts_env)
        \<and> 0 \<le> txdmac_init_err (ndev_answers two_conflicts_env)
        \<and> txn_answers two_conflicts_env =
            [sample_txn\<lparr>end_err := - 11\<rparr>, sample_txn\<lparr>end_err := - 11\<rparr>] @ sample_txn # []
        \<and> list_all conflict_attempt [sample_txn\<lparr>end_err := - 11\<rparr>, sample_txn\<lparr>end_err := - 11\<rparr>]
        \<and> accepted_attempt sample_txn"
    using e1 e2
    by (simp add: two_conflicts_env_def sample_probe_env_def sample_txn_def conflict_attempt_def
          accepted_attempt_def EAGAIN_def)
  note T = attach_publishes_ids_in_one_transaction[where env = two_conflicts_env and h = sample_host
      and h' = "snd (rswitch_vmq_back_probe two_conflicts_env sample_host)"
      and ?p0.0 = 1 and ?t0.0 = c1 and ?h1.0 = g1 and ?r0.0 = c2 and ?h2.0 = g2
      and cs = "[sample_txn\<lparr>end_err := - 11\<rparr>, sample_txn\<lparr>end_err := - 11\<rparr>]"
      and t = sample_txn and ts = "[]"]
  note B = T[THEN conjunct2, THEN conjunct1, THEN mp, OF hyp]
  have ret: "fst (rswitch_vmq_back_probe two_conflicts_env sample_host) = ProbeRet 0"
    using B by simp
  have ev: "filter is_store_event
        (events_since sample_host (snd (rswitch_vmq_back_probe two_conflicts_env sample_host))) =
       attempt_events 1 2 9 (- 11) @ attempt_events 1 2 9 (- 11) @ attempt_events 1 2 9 0"
    using B by (simp add: c1_def c2_def two_conflicts_env_def sample_probe_env_def EAGAIN_def)
  have xs: "map (xstore (snd (rswitch_vmq_back_probe two_conflicts_env sample_host)))
        [''tx-chain-id'', ''rx-chain-id'', ''remote-chain-id''] = [Some 1, Some 2, Some 9]"
    using B by (simp add: c1_def c2_def two_conflicts_env_def sample_probe_env_def)
  have "rswitch_vmq_back_probe two_conflicts_env sample_host =
          (ProbeRet 0, snd (rswitch_vmq_back_probe two_conflicts_env sample_host))"
    using ret by (cases "rswitch_vmq_back_probe two_conflicts_env sample_host") simp
  from T[THEN conjunct1, THEN mp, OF this]
  have "ids_visible (xstore (snd (rswitch_vmq_back_probe two_conflicts_env sample_host))) = 3"
    by blast
  with ret ev xs show ?thesis by simp
qed

lemmas probe_eval =
  rswitch_vmq_back_probe_def probe_fail_def gwca_get_def gwca_put_def rswitch_gwca_get_def
  rswitch_gwca_put_def rswitch_vmq_back_ndev_register_def IS_ERR_def PTR_ERR_def write_be_def
  xenbus_read_unsigned_def kzalloc_back_info_def xenbus_transaction_start_def xenbus_printf_def
  xenbus_transaction_end_def observe_def emit_def xenbus_dev_fatal_def xenbus_switch_state_def
  sample_probe_env_def sample_host_def sample_txn_def ENOMEM_def ENODEV_def EAGAIN_def Let_def
  RSWITCH_BACK_BASE_INDEX_def

text \<open>
  C5, as the code has it. A missing or malformed \<^verbatim>\<open>osid\<close> or \<^verbatim>\<open>if-num\<close> key is not
  fatal: Attach goes on exactly as if the key held the default value 255.
\<close>

theorem probe_missing_key_is_default_255:
  "rswitch_vmq_back_probe (env\<lparr>scan_osid := None\<rparr>) h =
     rswitch_vmq_back_probe (env\<lparr>scan_osid := Some 255\<rparr>) h
   \<and> rswitch_vmq_back_probe (env\<lparr>scan_if_num := None\<rparr>) h =
     rswitch_vmq_back_probe (env\<lparr>scan_if_num := Some 255\<rparr>) h"
  by (simp add: rswitch_vmq_back_probe_def xenbus_read_unsigned_def
        cong: option.case_cong prod.case_cong if_cong)


text \<open>
  The claim C5 as stated fails: with both keys missing Attach returns 0, records 255 as
  owner id and as interface index, keeps both chains and switches to InitWait.
\<close>

theorem probe_missing_keys_not_fatal_counterexample:
  "fst (rswitch_vmq_back_probe (sample_probe_env\<lparr>scan_osid := None, scan_if_num := None\<rparr>)
          sample_host) = ProbeRet 0
   \<and> map_option osid (heap (snd (rswitch_vmq_back_probe
          (sample_probe_env\<lparr>scan_osid := None, scan_if_num := None\<rparr>) sample_host)) 1) = Some 255
   \<and> map_option if_num (heap (snd (rswitch_vmq_back_probe
          (sample_probe_env\<lparr>scan_osid := None, scan_if_num := None\<rparr>) sample_host)) 1) = Some 255
   \<and> used (gwca (snd (rswitch_vmq_back_probe
          (sample_probe_env\<lparr>scan_osid := None, scan_if_num := None\<rparr>) sample_host))) =
       [True, True, True, False]
   \<and> state (snd (rswitch_vmq_back_probe
          (sample_probe_env\<lparr>scan_osid := None, scan_if_num := None\<rparr>) sample_host)) =
       XenbusStateInitWait"
  by (simp add: probe_eval)


text \<open>
  C3. The claim asks that a failed Attach releases what it acquired and leaves no
  attachment reachable. The code does not when the registration of the local device
  fails: it returns the error with the driver data of the device still pointing to the
  attachment, and with both chains still marked used in the pool.
\<close>

theorem probe_ndev_failure_keeps_drvdata_and_chains:
  "fst (rswitch_vmq_back_probe
          (sample_probe_env\<lparr>ndev_answers := (ndev_answers sample_probe_env)\<lparr>register_netdev_err := - 12\<rparr>\<rparr>)
          sample_host) = ProbeRet (- 12)
   \<and> drvdata (snd (rswitch_vmq_back_probe
          (sample_probe_env\<lparr>ndev_answers := (ndev_answers sample_probe_env)\<lparr>register_netdev_err := - 12\<rparr>\<rparr>)
          sample_host)) = Some 1
   \<and> map_option rdev (heap (snd (rswitch_vmq_back_probe
          (sample_probe_env\<lparr>ndev_answers := (ndev_answers sample_probe_env)\<lparr>register_netdev_err := - 12\<rparr>\<rparr>)
          sample_host)) 1) = Some (RdevErr (- 12))
   \<and> used (gwca sample_host) = [True, False, False, False]
   \<and> used (gwca (snd (rswitch_vmq_back_probe
          (sample_probe_env\<lparr>ndev_answers := (ndev_answers sample_probe_env)\<lparr>register_netdev_err := - 12\<rparr>\<rparr>)
          sample_host))) = [True, True, True, False]
   \<and> log (snd (rswitch_vmq_back_probe
          (sample_probe_env\<lparr>ndev_answers := (ndev_answers sample_probe_env)\<lparr>register_netdev_err := - 12\<rparr>\<rparr>)
          sample_host)) =
       [GwcaGet (Some 1), GwcaGet (Some 2), AllocEtherdev True, SetPrivRdev 5,
        RegisterNetdev (- 12), NapiDel, FreeNetdev, DevFatal (- 12)]"
  by (simp add: probe_eval)


text \<open>
  C4. The claim asks that a chain acquired by a failing Attach is released once. The
  code does not when the local device cannot be allocated: both chains were taken from
  the pool, no release follows, and both stay marked used.
\<close>

theorem probe_ndev_failure_leaks_chains:
  "fst (rswitch_vmq_back_probe
          (sample_probe_env\<lparr>ndev_answers := (ndev_answers sample_probe_env)\<lparr>alloc_etherdev_ok := False\<rparr>\<rparr>)
          sample_host) = ProbeRet (- 12)
   \<and> log (snd (rswitch_vmq_back_probe
          (sample_probe_env\<lparr>ndev_answers := (ndev_answers sample_probe_env)\<lparr>alloc_etherdev_ok := False\<rparr>\<rparr>)
          sample_host)) =
       [GwcaGet (Some 1), GwcaGet (Some 2), AllocEtherdev False, DevFatal (- 12)]
   \<and> used (gwca (snd (rswitch_vmq_back_probe
          (sample_probe_env\<lparr>ndev_answers := (ndev_answers sample_probe_env)\<lparr>alloc_etherdev_ok := False\<rparr>\<rparr>)
          sample_host))) = [True, True, True, False]"
  by (simp add: probe_eval)


end
